theory Spec2Isabelle
  imports Complex_Main "HOL-Library.Char_ord" "HOL-Library.List_Lexorder" "HOL-Library.AList" "HOL-Library.Word"
begin

section \<open>Go strings and integers used by the query parser\<close>

text \<open>
  A Go string is a byte sequence: a \<^typ>\<open>string\<close>. The helpers below follow the functions
  of Go's \<^verbatim>\<open>strings\<close> and \<^verbatim>\<open>strconv\<close> packages that the parser calls. An index
  result of \<^verbatim>\<open>-1\<close> is \<^term>\<open>None\<close>. \<^verbatim>\<open>strings.TrimSpace\<close> is modelled on the
  ASCII white space characters.
\<close>

definition isSpace :: "char \<Rightarrow> bool" where
  "isSpace c = (c = CHR '' '' \<or> c = CHR 0x09 \<or> c = CHR 0x0A \<or> c = CHR 0x0B \<or> c = CHR 0x0C \<or> c = CHR 0x0D)"

definition TrimSpace :: "string \<Rightarrow> string" where
  "TrimSpace s = rev (dropWhile isSpace (rev (dropWhile isSpace s)))"

definition HasPrefix :: "string \<Rightarrow> string \<Rightarrow> bool" where
  "HasPrefix s p = (take (length p) s = p)"

definition HasSuffix :: "string \<Rightarrow> string \<Rightarrow> bool" where
  "HasSuffix s suf = (length suf \<le> length s \<and> drop (length s - length suf) s = suf)"

fun Index :: "string \<Rightarrow> string \<Rightarrow> nat option" where
  "Index [] sub = (if sub = [] then Some 0 else None)"
| "Index (c # s) sub =
     (if HasPrefix (c # s) sub then Some 0 else map_option Suc (Index s sub))"

fun LastIndex :: "string \<Rightarrow> string \<Rightarrow> nat option" where
  "LastIndex [] sub = (if sub = [] then Some 0 else None)"
| "LastIndex (c # s) sub =
     (case LastIndex s sub of
        Some i \<Rightarrow> Some (Suc i)
      | None \<Rightarrow> if HasPrefix (c # s) sub then Some 0 else None)"

definition Contains :: "string \<Rightarrow> string \<Rightarrow> bool" where
  "Contains s sub = (Index s sub \<noteq> None)"

text \<open>\<^verbatim>\<open>strings.Split(s, sep)\<close> for a one-byte separator: one more field than separators.\<close>

fun Split :: "string \<Rightarrow> char \<Rightarrow> string list" where
  "Split [] sep = [[]]"
| "Split (c # s) sep =
     (if c = sep then [] # Split s sep
      else (case Split s sep of [] \<Rightarrow> [[c]] | f # fs \<Rightarrow> (c # f) # fs))"

text \<open>
  The slice expression \<^verbatim>\<open>s[a:b]\<close>; Go panics when \<^verbatim>\<open>a > b\<close> or \<^verbatim>\<open>b > len(s)\<close>,
  which is \<^term>\<open>None\<close> here.
\<close>

definition slice :: "string \<Rightarrow> nat \<Rightarrow> nat \<Rightarrow> string option" where
  "slice s a b = (if a \<le> b \<and> b \<le> length s then Some (take (b - a) (drop a s)) else None)"

text \<open>Signed 64-bit wrap-around of Go's \<^verbatim>\<open>int64\<close> arithmetic.\<close>

definition wrap64 :: "int \<Rightarrow> int" where
  "wrap64 x = (x + 2 ^ 63) mod 2 ^ 64 - 2 ^ 63"

definition isDigit :: "char \<Rightarrow> bool" where
  "isDigit c = (CHR ''0'' \<le> c \<and> c \<le> CHR ''9'')"

definition digitVal :: "char \<Rightarrow> int" where
  "digitVal c = int (of_char c) - 48"

definition decimal :: "string \<Rightarrow> int" where
  "decimal ds = foldl (\<lambda>n c. 10 * n + digitVal c) 0 ds"

text \<open>
  \<^verbatim>\<open>strconv.Atoi\<close>: an optional sign and at least one decimal digit, nothing else; a value
  outside the 64-bit \<^verbatim>\<open>int\<close> is an error.
\<close>

definition Atoi :: "string \<Rightarrow> int option" where
  "Atoi s =
     (let (neg, ds) = (case s of
                         [] \<Rightarrow> (False, [])
                       | c # r \<Rightarrow> if c = CHR ''-'' then (True, r)
                                  else if c = CHR ''+'' then (False, r) else (False, s))
      in if ds \<noteq> [] \<and> list_all isDigit ds
         then (let v = (if neg then - decimal ds else decimal ds)
               in if - (2 ^ 63) \<le> v \<and> v \<le> 2 ^ 63 - 1 then Some v else None)
         else None)"

section \<open>The query parser (promql/parser.go)\<close>

record Aggregation =
  Operation :: string
  By :: "string list"
  Without :: "string list"

text \<open>
  \<^verbatim>\<open>Query.Labels\<close> is a Go map; it is kept as an association list with one entry per key,
  written with \<^const>\<open>AList.update\<close>. Durations are nanosecond counts, as \<^verbatim>\<open>time.Duration\<close>.
  The pointer \<^verbatim>\<open>Aggregation\<close> is an option.
\<close>

record Query =
  MetricName :: string
  Labels :: "(string \<times> string) list"
  Function :: string
  RangeDur :: int
  Offset :: int
  Aggregation :: "Aggregation option"

datatype parse_error =
    EmptyQuery
  | InvalidFunctionSyntax
  | MissingClosingParenthesis
  | InvalidFunctionArgument parse_error
  | MissingClosingBracket
  | InvalidRangeDuration parse_error
  | MissingClosingBrace
  | InvalidLabelSelector string
  | EmptyDuration
  | AtoiError string
  | ParseDurationError string
  | InvalidAggregationSyntax
  | SliceBoundsPanic

definition Second :: int where "Second = 1000000000"
definition Minute :: int where "Minute = 60 * Second"
definition Hour :: int where "Hour = 60 * Minute"

definition metricOnly :: "string \<Rightarrow> (string \<times> string) list \<Rightarrow> Query" where
  "metricOnly name labels =
     \<lparr>MetricName = name, Labels = labels, Function = [], RangeDur = 0, Offset = 0,
      Aggregation = None\<rparr>"

fun parseLabels_pairs :: "(string \<times> string) list \<Rightarrow> string list \<Rightarrow> parse_error + (string \<times> string) list" where
  "parseLabels_pairs labels [] = Inr labels"
| "parseLabels_pairs labels (p # ps) =
     (let pair = TrimSpace p in
      if pair = [] then parseLabels_pairs labels ps
      else (case Index pair ''='' of
              None \<Rightarrow> Inl (InvalidLabelSelector pair)
            | Some i \<Rightarrow>
                (let key = TrimSpace (take i pair);
                     v = TrimSpace (drop (Suc i) pair);
                     val = (if 2 \<le> length v \<and> hd v = CHR 0x22 \<and> last v = CHR 0x22
                            then butlast (tl v) else v)
                 in parseLabels_pairs (AList.update key val labels) ps)))"

definition parseLabels :: "string \<Rightarrow> parse_error + (string \<times> string) list" where
  "parseLabels selector =
     (if selector = [] then Inr [] else parseLabels_pairs [] (Split selector CHR '',''))"

definition parseMetricWithLabels :: "string \<Rightarrow> parse_error + Query" where
  "parseMetricWithLabels query =
     (case Index query ''{'' of
        None \<Rightarrow> Inr (metricOnly (TrimSpace query) [])
      | Some labelStart \<Rightarrow>
          (case Index query ''}'' of
             None \<Rightarrow> Inl MissingClosingBrace
           | Some labelEnd \<Rightarrow>
               (case slice query (labelStart + 1) labelEnd of
                  None \<Rightarrow> Inl SliceBoundsPanic
                | Some sel \<Rightarrow>
                    (case parseLabels (TrimSpace sel) of
                       Inl e \<Rightarrow> Inl e
                     | Inr labels \<Rightarrow>
                         Inr (metricOnly (TrimSpace (take labelStart query)) labels)))))"

text \<open>
  \<^verbatim>\<open>parseDuration\<close>. Its last case hands the text to \<^verbatim>\<open>time.ParseDuration\<close>, whose
  every unit (\<^verbatim>\<open>ns us ms s m h\<close>) ends in one of the letters tested before; what
  is left for it to accept is a zero written without a unit.
\<close>

definition time_ParseDuration_unitless :: "string \<Rightarrow> parse_error + int" where
  "time_ParseDuration_unitless d =
     (if d = ''0'' \<or> d = ''+0'' \<or> d = ''-0'' then Inr 0 else Inl (ParseDurationError d))"

definition atoiTimes :: "string \<Rightarrow> int \<Rightarrow> parse_error + int" where
  "atoiTimes duration unit =
     (case Atoi (butlast duration) of
        None \<Rightarrow> Inl (AtoiError (butlast duration))
      | Some v \<Rightarrow> Inr (wrap64 (v * unit)))"

definition parseDuration :: "string \<Rightarrow> parse_error + int" where
  "parseDuration d =
     (let duration = TrimSpace d in
      if duration = [] then Inl EmptyDuration
      else if HasSuffix duration ''s'' then atoiTimes duration Second
      else if HasSuffix duration ''m'' then atoiTimes duration Minute
      else if HasSuffix duration ''h'' then atoiTimes duration Hour
      else if HasSuffix duration ''d'' then
        (case Atoi (butlast duration) of
           None \<Rightarrow> Inl (AtoiError (butlast duration))
         | Some v \<Rightarrow> Inr (wrap64 (wrap64 (v * 24) * Hour)))
      else time_ParseDuration_unitless duration)"

definition parseMetricWithRange :: "string \<Rightarrow> parse_error + (Query \<times> int)" where
  "parseMetricWithRange query =
     (case Index query ''['' of
        None \<Rightarrow> (case parseMetricWithLabels query of Inl e \<Rightarrow> Inl e | Inr q \<Rightarrow> Inr (q, 0))
      | Some rangeStart \<Rightarrow>
          (case Index query '']'' of
             None \<Rightarrow> Inl MissingClosingBracket
           | Some rangeEnd \<Rightarrow>
               (case slice query (rangeStart + 1) rangeEnd of
                  None \<Rightarrow> Inl SliceBoundsPanic
                | Some rangePart \<Rightarrow>
                    (case parseMetricWithLabels (TrimSpace (take rangeStart query)) of
                       Inl e \<Rightarrow> Inl e
                     | Inr metricQuery \<Rightarrow>
                         (case parseDuration (TrimSpace rangePart) of
                            Inl e \<Rightarrow> Inl (InvalidRangeDuration e)
                          | Inr duration \<Rightarrow> Inr (metricQuery, duration))))))"

definition parseFunction :: "string \<Rightarrow> parse_error + Query" where
  "parseFunction query =
     (case Index query ''('' of
        None \<Rightarrow> Inl InvalidFunctionSyntax
      | Some openParen \<Rightarrow>
          (let funcName = TrimSpace (take openParen query) in
           case LastIndex query '')'' of
             None \<Rightarrow> Inl MissingClosingParenthesis
           | Some closeParen \<Rightarrow>
               if closeParen \<le> openParen then Inl MissingClosingParenthesis
               else (case slice query (openParen + 1) closeParen of
                       None \<Rightarrow> Inl SliceBoundsPanic
                     | Some a \<Rightarrow>
                         (case parseMetricWithRange (TrimSpace a) of
                            Inl e \<Rightarrow> Inl (InvalidFunctionArgument e)
                          | Inr (metricQuery, rangeDuration) \<Rightarrow>
                              Inr \<lparr>MetricName = MetricName metricQuery,
                                   Labels = Labels metricQuery,
                                   Function = funcName, RangeDur = rangeDuration,
                                   Offset = 0, Aggregation = None\<rparr>))))"

definition Parse :: "string \<Rightarrow> parse_error + Query" where
  "Parse q =
     (let query = TrimSpace q in
      if query = [] then Inl EmptyQuery
      else if Contains query ''('' \<and> Contains query '')'' then parseFunction query
      else if \<not> Contains query ''{'' then Inr (metricOnly query [])
      else parseMetricWithLabels query)"

definition byClauseOf :: "string \<Rightarrow> nat \<Rightarrow> string" where
  "byClauseOf query closeParen =
     (if int closeParen < int (length query) - 1 then
        (let remaining = TrimSpace (drop (closeParen + 1) query) in
         if HasPrefix remaining ''by'' then
           (case (Index remaining ''('', Index remaining '')'') of
              (Some byStart, Some byEnd) \<Rightarrow>
                (case slice remaining (byStart + 1) byEnd of
                   None \<Rightarrow> []
                 | Some c \<Rightarrow> TrimSpace c)
            | _ \<Rightarrow> [])
         else [])
      else [])"

definition ParseAggregation :: "string \<Rightarrow> parse_error + Query" where
  "ParseAggregation q =
     (let query = TrimSpace q in
      case Index query ''('' of
        None \<Rightarrow> Inl InvalidAggregationSyntax
      | Some openParen \<Rightarrow>
          (let funcName = TrimSpace (take openParen query) in
           case LastIndex query '')'' of
             None \<Rightarrow> Inl MissingClosingParenthesis
           | Some closeParen \<Rightarrow>
               (case slice query (openParen + 1) closeParen of
                  None \<Rightarrow> Inl SliceBoundsPanic
                | Some metricQuery \<Rightarrow>
                    (case Parse (TrimSpace metricQuery) of
                       Inl e \<Rightarrow> Inl e
                     | Inr parsedQuery \<Rightarrow>
                         (let byClause = byClauseOf query closeParen;
                              byLabels = (if byClause \<noteq> []
                                          then map TrimSpace (Split byClause CHR '','')
                                          else [])
                          in Inr (parsedQuery\<lparr>Aggregation :=
                                    Some \<lparr>Operation = funcName, By = byLabels, Without = []\<rparr>\<rparr>))))))"

section \<open>Time and floating-point values\<close>

text \<open>
  A \<^verbatim>\<open>time.Time\<close> is the instant it denotes, in nanoseconds since the Unix epoch, as an
  unbounded integer; a \<^verbatim>\<open>time.Duration\<close> is a count of nanoseconds. Comparison of
  instants (\<^verbatim>\<open>After\<close>, \<^verbatim>\<open>Before\<close>, \<^verbatim>\<open>Equal\<close>) is comparison of these integers.
\<close>

type_synonym Time = int

definition time_Unix :: "int \<Rightarrow> int \<Rightarrow> Time" where
  "time_Unix sec nsec = sec * 1000000000 + nsec"

definition Unix :: "Time \<Rightarrow> int" where
  "Unix t = t div 1000000000"

definition UnixNano :: "Time \<Rightarrow> int" where
  "UnixNano t = wrap64 t"

definition Add :: "Time \<Rightarrow> int \<Rightarrow> Time" where
  "Add t d = t + d"

definition After :: "Time \<Rightarrow> Time \<Rightarrow> bool" where
  "After t u = (u < t)"

definition Before :: "Time \<Rightarrow> Time \<Rightarrow> bool" where
  "Before t u = (t < u)"

definition Equal :: "Time \<Rightarrow> Time \<Rightarrow> bool" where
  "Equal t u = (t = u)"

text \<open>\<^verbatim>\<open>t.Sub(u)\<close> saturates at the largest and smallest \<^verbatim>\<open>Duration\<close>.\<close>

definition Sub :: "Time \<Rightarrow> Time \<Rightarrow> int" where
  "Sub t u = (if 2 ^ 63 - 1 < t - u then 2 ^ 63 - 1
              else if t - u < - (2 ^ 63) then - (2 ^ 63) else t - u)"

text \<open>
  A \<^verbatim>\<open>float64\<close> is a real number or one of the three special values; rounding and the
  sign of zero are not modelled. A zero divisor is the positive zero, the only one the
  evaluator produces (\<^verbatim>\<open>Duration.Seconds\<close> of a zero duration).
\<close>

datatype float64 = Finite real | PosInf | NegInf | NaN

fun fneg :: "float64 \<Rightarrow> float64" where
  "fneg (Finite a) = Finite (- a)"
| "fneg PosInf = NegInf"
| "fneg NegInf = PosInf"
| "fneg NaN = NaN"

fun fadd :: "float64 \<Rightarrow> float64 \<Rightarrow> float64" where
  "fadd (Finite a) (Finite b) = Finite (a + b)"
| "fadd NaN y = NaN"
| "fadd x NaN = NaN"
| "fadd PosInf NegInf = NaN"
| "fadd NegInf PosInf = NaN"
| "fadd PosInf y = PosInf"
| "fadd NegInf y = NegInf"
| "fadd x PosInf = PosInf"
| "fadd x NegInf = NegInf"

definition fsub :: "float64 \<Rightarrow> float64 \<Rightarrow> float64" where
  "fsub x y = fadd x (fneg y)"

fun fdiv :: "float64 \<Rightarrow> float64 \<Rightarrow> float64" where
  "fdiv (Finite a) (Finite b) =
     (if b = 0 then (if a = 0 then NaN else if 0 < a then PosInf else NegInf)
      else Finite (a / b))"
| "fdiv NaN y = NaN"
| "fdiv x NaN = NaN"
| "fdiv (Finite a) y = Finite 0"
| "fdiv PosInf (Finite b) = (if 0 \<le> b then PosInf else NegInf)"
| "fdiv NegInf (Finite b) = (if 0 \<le> b then NegInf else PosInf)"
| "fdiv x y = NaN"

fun fless :: "float64 \<Rightarrow> float64 \<Rightarrow> bool" where
  "fless (Finite a) (Finite b) = (a < b)"
| "fless NegInf (Finite b) = True"
| "fless NegInf PosInf = True"
| "fless (Finite a) PosInf = True"
| "fless x y = False"

definition Seconds :: "int \<Rightarrow> float64" where
  "Seconds d = Finite (real_of_int d / 1000000000)"

section \<open>The storage engine (storage/sqlite.go)\<close>

text \<open>
  A JSON text is kept as the value it encodes. The \<^verbatim>\<open>labels\<close> and \<^verbatim>\<open>attributes\<close>
  columns hold a JSON object: a list of members.
\<close>

datatype json =
    JNull
  | JString string
  | JBool bool
  | JInt int
  | JDouble float64
  | JArray "json list"
  | JObject "(string \<times> json) list"

record Metric =
  m_Timestamp :: Time
  m_MetricName :: string
  m_Value :: float64
  m_Labels :: "(string \<times> json) list"
  m_ServiceName :: string

record Trace =
  TraceID :: string
  SpanID :: string
  ParentSpanID :: "string option"
  ServiceName :: string
  OperationName :: string
  StartTime :: Time
  DurationNanos :: int
  Attributes :: "(string \<times> json) list"
  StatusCode :: string

text \<open>
  The rows of the \<^verbatim>\<open>metrics\<close> and \<^verbatim>\<open>traces\<close> tables, with the columns the insert
  statements name (\<^verbatim>\<open>id\<close> and \<^verbatim>\<open>created_at\<close> are filled in by SQLite and read by none
  of the statements below). A closed handle fails every statement.
\<close>

record metric_row =
  col_timestamp :: int
  col_metric_name :: string
  col_value :: float64
  col_labels :: "(string \<times> json) list"
  col_service_name :: string

record trace_row =
  col_trace_id :: string
  col_span_id :: string
  col_parent_span_id :: "string option"
  col_trace_service_name :: string
  col_operation_name :: string
  col_start_time :: int
  col_duration_nanos :: int
  col_attributes :: "(string \<times> json) list"
  col_status_code :: string

record DB =
  metrics :: "metric_row list"
  traces :: "trace_row list"
  closed :: bool

text \<open>
  The errors of \<^verbatim>\<open>database/sql\<close>: the handle is closed, the context of the call is done, or
  the engine does not take the statement.
\<close>

datatype sql_error = DatabaseIsClosed | ContextDone | StatementFailed

definition InsertMetric :: "DB \<Rightarrow> Metric \<Rightarrow> sql_error + DB" where
  "InsertMetric db metric =
     (if closed db then Inl DatabaseIsClosed
      else Inr (db\<lparr>metrics := metrics db @
                  [\<lparr>col_timestamp = UnixNano (m_Timestamp metric),
                    col_metric_name = m_MetricName metric,
                    col_value = m_Value metric,
                    col_labels = m_Labels metric,
                    col_service_name = m_ServiceName metric\<rparr>]\<rparr>))"

definition InsertTrace :: "DB \<Rightarrow> Trace \<Rightarrow> sql_error + DB" where
  "InsertTrace db trace =
     (if closed db then Inl DatabaseIsClosed
      else Inr (db\<lparr>traces := traces db @
                  [\<lparr>col_trace_id = TraceID trace,
                    col_span_id = SpanID trace,
                    col_parent_span_id = ParentSpanID trace,
                    col_trace_service_name = ServiceName trace,
                    col_operation_name = OperationName trace,
                    col_start_time = UnixNano (StartTime trace),
                    col_duration_nanos = DurationNanos trace,
                    col_attributes = Attributes trace,
                    col_status_code = StatusCode trace\<rparr>]\<rparr>))"

section \<open>The query evaluator (package promql, Evaluator)\<close>

record MetricPoint =
  Timestamp :: Time
  Value :: float64
  PointLabels :: "(string \<times> string) list"

record MetricSeries =
  SeriesMetricName :: string
  SeriesLabels :: "(string \<times> string) list"
  Points :: "MetricPoint list"

record QueryResult =
  Series :: "MetricSeries list"
  Type :: string

datatype eval_error =
    DatabaseQueryFailed sql_error
  | UnsupportedFunction string
  | UnsupportedAggregation string
  | FailedToGetMetricSeries eval_error
  | FailedToApplyFunction string eval_error
  | FailedToApplyAggregation eval_error

text \<open>
  \<^verbatim>\<open>createSeriesKey\<close>: the \<^verbatim>\<open>key=value\<close> texts, sorted, printed with \<^verbatim>\<open>%v\<close>, which
  writes a slice of strings between brackets with one space between the elements.
\<close>

fun joinSpace :: "string list \<Rightarrow> string" where
  "joinSpace [] = []"
| "joinSpace [x] = x"
| "joinSpace (x # y # ys) = x @ '' '' @ joinSpace (y # ys)"

definition createSeriesKey :: "(string \<times> string) list \<Rightarrow> string" where
  "createSeriesKey labels =
     ''['' @ joinSpace (sort (map (\<lambda>(k, v). k @ ''='' @ v) labels)) @ '']''"

text \<open>
  \<^verbatim>\<open>JSON_EXTRACT(labels, '$.key') = ?\<close> with a text parameter: true when the object has
  the member and it is that string.
\<close>

definition labelMatches :: "(string \<times> json) list \<Rightarrow> string \<times> string \<Rightarrow> bool" where
  "labelMatches obj kv = (map_of obj (fst kv) = Some (JString (snd kv)))"

text \<open>
  The statement \<^verbatim>\<open>getMetricSeries\<close> builds: the text, into which every label key is
  pasted between single quotes (in the order of the association list; Go's map has none),
  and the arguments bound to its placeholders.
\<close>

datatype sql_arg = TextArg string | IntArg int

definition selectText :: string where
  "selectText =
     [CHR 0x0A, CHR 0x09, CHR 0x09] @ ''SELECT timestamp, value, labels, service_name''
     @ [CHR 0x0A, CHR 0x09, CHR 0x09] @ ''FROM metrics ''
     @ [CHR 0x0A, CHR 0x09, CHR 0x09] @ ''WHERE metric_name = ? ''
     @ [CHR 0x0A, CHR 0x09, CHR 0x09] @ ''AND timestamp >= ? ''
     @ [CHR 0x0A, CHR 0x09, CHR 0x09] @ ''AND timestamp <= ?''
     @ [CHR 0x0A, CHR 0x09]"

definition labelClause :: "string \<Rightarrow> string" where
  "labelClause key =
     '' AND JSON_EXTRACT(labels, '' @ [CHR 0x27] @ ''$.'' @ key @ [CHR 0x27] @ '') = ?''"

definition sqlQuery :: "Query \<Rightarrow> string" where
  "sqlQuery query =
     selectText @ concat (map (\<lambda>kv. labelClause (fst kv)) (Labels query))
     @ '' ORDER BY timestamp ASC''"

definition sqlArgs :: "Query \<Rightarrow> Time \<Rightarrow> Time \<Rightarrow> sql_arg list" where
  "sqlArgs query startTime endTime =
     [TextArg (MetricName query), IntArg (Unix startTime), IntArg (Unix endTime)]
     @ map (\<lambda>kv. TextArg (snd kv)) (Labels query)"

text \<open>
  The \<^verbatim>\<open>context.Context\<close> of a call, as what \<^verbatim>\<open>QueryContext\<close> sees of it.
\<close>

datatype Context = Active | Canceled | DeadlineExceeded

text \<open>
  \<^verbatim>\<open>db.QueryContext(ctx, sqlQuery, args...)\<close>: \<^term>\<open>None\<close> when it returns rows, the error
  otherwise. SQLite is not part of the repository: whether it takes a statement (a label
  key with a quote in it breaks the text, a key that is no JSON path fails when the
  statement runs) is the parameter \<open>accepts\<close>, a verdict on the store, the text and the
  arguments.
\<close>

definition QueryContext ::
  "(DB \<Rightarrow> string \<Rightarrow> sql_arg list \<Rightarrow> bool) \<Rightarrow> DB \<Rightarrow> Context \<Rightarrow> string \<Rightarrow> sql_arg list
   \<Rightarrow> sql_error option" where
  "QueryContext accepts db ctx text args =
     (if closed db then Some DatabaseIsClosed
      else if ctx = Active then
        (if accepts db text args then None else Some StatementFailed)
      else Some ContextDone)"

text \<open>The \<^verbatim>\<open>SELECT\<close> of \<^verbatim>\<open>getMetricSeries\<close>: the rows it returns, in the order it asks for.\<close>

definition selectMetricRows :: "DB \<Rightarrow> Query \<Rightarrow> Time \<Rightarrow> Time \<Rightarrow> metric_row list" where
  "selectMetricRows db query startTime endTime =
     sort_key col_timestamp
       (filter (\<lambda>r. col_metric_name r = MetricName query
                   \<and> Unix startTime \<le> col_timestamp r
                   \<and> col_timestamp r \<le> Unix endTime
                   \<and> list_all (labelMatches (col_labels r)) (Labels query))
               (metrics db))"

text \<open>
  The loop over the rows. \<^verbatim>\<open>seriesMap\<close> is an association list in the order in which
  the keys were first stored; Go leaves the order of the resulting slice open.
\<close>

definition addRow :: "string \<Rightarrow> (string \<times> MetricSeries) list \<Rightarrow> metric_row \<Rightarrow> (string \<times> MetricSeries) list" where
  "addRow name seriesMap r =
     (let lbls = [(''service'', col_service_name r)];
          seriesKey = createSeriesKey lbls;
          series = (case map_of seriesMap seriesKey of
                      Some s \<Rightarrow> s
                    | None \<Rightarrow> \<lparr>SeriesMetricName = name, SeriesLabels = lbls, Points = []\<rparr>)
      in AList.update seriesKey
           (series\<lparr>Points := Points series @
              [\<lparr>Timestamp = time_Unix (col_timestamp r) 0, Value = col_value r, PointLabels = lbls\<rparr>]\<rparr>)
           seriesMap)"

definition groupRows :: "string \<Rightarrow> metric_row list \<Rightarrow> MetricSeries list" where
  "groupRows name rows = map snd (foldl (addRow name) [] rows)"

definition getMetricSeries ::
  "(DB \<Rightarrow> string \<Rightarrow> sql_arg list \<Rightarrow> bool) \<Rightarrow> DB \<Rightarrow> Context \<Rightarrow> Query \<Rightarrow> Time \<Rightarrow> Time
   \<Rightarrow> eval_error + MetricSeries list" where
  "getMetricSeries accepts db ctx query startTime endTime =
     (case QueryContext accepts db ctx (sqlQuery query) (sqlArgs query startTime endTime) of
        Some err \<Rightarrow> Inl (DatabaseQueryFailed err)
      | None \<Rightarrow>
          Inr (groupRows (MetricName query) (selectMetricRows db query startTime endTime)))"

text \<open>
  \<^verbatim>\<open>applyRate\<close>. \<^verbatim>\<open>findPrev pts rangeStart j\<close> is the inner loop
  \<^verbatim>\<open>for k := j - 1; k >= 0; k--\<close>; \<^verbatim>\<open>ratePoint\<close> is the body of the loop over \<^verbatim>\<open>j\<close>,
  with the point it appends, if any.
\<close>

fun findPrev :: "MetricPoint list \<Rightarrow> Time \<Rightarrow> nat \<Rightarrow> MetricPoint option" where
  "findPrev pts rangeStart 0 = None"
| "findPrev pts rangeStart (Suc k) =
     (if After (Timestamp (pts ! k)) rangeStart then Some (pts ! k)
      else findPrev pts rangeStart k)"

definition ratePoint :: "MetricPoint list \<Rightarrow> int \<Rightarrow> nat \<Rightarrow> MetricPoint option" where
  "ratePoint pts rangeDuration j =
     (if j = 0 then None
      else (let point = pts ! j;
                rangeStart = Add (Timestamp point) (wrap64 (- rangeDuration))
            in case findPrev pts rangeStart j of
                 None \<Rightarrow> None
               | Some prevPoint \<Rightarrow>
                   (let timeDiff = Seconds (Sub (Timestamp point) (Timestamp prevPoint));
                        valueDiff = fsub (Value point) (Value prevPoint)
                    in Some \<lparr>Timestamp = Timestamp point, Value = fdiv valueDiff timeDiff,
                             PointLabels = PointLabels point\<rparr>)))"

definition appendSome :: "'a list \<Rightarrow> 'a option \<Rightarrow> 'a list" where
  "appendSome acc r = (case r of None \<Rightarrow> acc | Some p \<Rightarrow> acc @ [p])"

definition ratePoints :: "MetricPoint list \<Rightarrow> int \<Rightarrow> MetricPoint list" where
  "ratePoints pts rangeDuration =
     foldl (\<lambda>acc j. appendSome acc (ratePoint pts rangeDuration j)) [] [0..<length pts]"

definition applyRate :: "MetricSeries list \<Rightarrow> int \<Rightarrow> eval_error + MetricSeries list" where
  "applyRate series rangeDuration =
     Inr (map (\<lambda>s. \<lparr>SeriesMetricName = SeriesMetricName s, SeriesLabels = SeriesLabels s,
                     Points = ratePoints (Points s) rangeDuration\<rparr>) series)"

text \<open>
  \<^verbatim>\<open>applyIncrease\<close>. \<^verbatim>\<open>findStart pts rangeStart (j + 1)\<close> is the inner loop
  \<^verbatim>\<open>for k := j; k >= 0; k--\<close>.
\<close>

fun findStart :: "MetricPoint list \<Rightarrow> Time \<Rightarrow> nat \<Rightarrow> MetricPoint option" where
  "findStart pts rangeStart 0 = None"
| "findStart pts rangeStart (Suc k) =
     (if Before (Timestamp (pts ! k)) rangeStart \<or> Equal (Timestamp (pts ! k)) rangeStart
      then Some (pts ! k)
      else findStart pts rangeStart k)"

definition increasePoint :: "MetricPoint list \<Rightarrow> int \<Rightarrow> nat \<Rightarrow> MetricPoint option" where
  "increasePoint pts rangeDuration j =
     (let point = pts ! j;
          rangeStart = Add (Timestamp point) (wrap64 (- rangeDuration))
      in case findStart pts rangeStart (Suc j) of
           None \<Rightarrow> None
         | Some startPoint \<Rightarrow>
             Some \<lparr>Timestamp = Timestamp point,
                   Value = fsub (Value point) (Value startPoint),
                   PointLabels = PointLabels point\<rparr>)"

definition increasePoints :: "MetricPoint list \<Rightarrow> int \<Rightarrow> MetricPoint list" where
  "increasePoints pts rangeDuration =
     foldl (\<lambda>acc j. appendSome acc (increasePoint pts rangeDuration j)) [] [0..<length pts]"

definition applyIncrease :: "MetricSeries list \<Rightarrow> int \<Rightarrow> eval_error + MetricSeries list" where
  "applyIncrease series rangeDuration =
     Inr (map (\<lambda>s. \<lparr>SeriesMetricName = SeriesMetricName s, SeriesLabels = SeriesLabels s,
                     Points = increasePoints (Points s) rangeDuration\<rparr>) series)"

text \<open>
  \<^verbatim>\<open>applySum\<close> and \<^verbatim>\<open>applyAvg\<close>. The keys of \<^verbatim>\<open>timestampMap\<close>, sorted, are the distinct
  timestamps in ascending order. \<^verbatim>\<open>firstAt\<close> is the loop over the points of one series,
  which stops at the first point with the timestamp.
\<close>

definition allTimestamps :: "MetricSeries list \<Rightarrow> Time list" where
  "allTimestamps series = sort (remdups (concat (map (\<lambda>s. map Timestamp (Points s)) series)))"

fun firstAt :: "MetricPoint list \<Rightarrow> Time \<Rightarrow> float64 option" where
  "firstAt [] ts = None"
| "firstAt (p # ps) ts = (if Equal (Timestamp p) ts then Some (Value p) else firstAt ps ts)"

definition sumAt :: "MetricSeries list \<Rightarrow> Time \<Rightarrow> float64" where
  "sumAt series ts =
     foldl (\<lambda>sum s. case firstAt (Points s) ts of None \<Rightarrow> sum | Some v \<Rightarrow> fadd sum v)
           (Finite 0) series"

definition countAt :: "MetricSeries list \<Rightarrow> Time \<Rightarrow> nat" where
  "countAt series ts =
     foldl (\<lambda>n s. case firstAt (Points s) ts of None \<Rightarrow> n | Some v \<Rightarrow> n + 1) 0 series"

definition applySum :: "MetricSeries list \<Rightarrow> eval_error + MetricSeries list" where
  "applySum series =
     (if series = [] then Inr series
      else Inr [\<lparr>SeriesMetricName = SeriesMetricName (hd series), SeriesLabels = [],
                 Points = map (\<lambda>ts. \<lparr>Timestamp = ts, Value = sumAt series ts, PointLabels = []\<rparr>)
                              (allTimestamps series)\<rparr>])"

definition applyAvg :: "MetricSeries list \<Rightarrow> eval_error + MetricSeries list" where
  "applyAvg series =
     (if series = [] then Inr series
      else Inr [\<lparr>SeriesMetricName = SeriesMetricName (hd series), SeriesLabels = [],
                 Points = map (\<lambda>ts. \<lparr>Timestamp = ts,
                                      Value = (if 0 < countAt series ts
                                               then fdiv (sumAt series ts)
                                                         (Finite (real (countAt series ts)))
                                               else Finite 0),
                                      PointLabels = []\<rparr>)
                              (allTimestamps series)\<rparr>])"

text \<open>\<^verbatim>\<open>applyCount\<close>, \<^verbatim>\<open>applyMin\<close> and \<^verbatim>\<open>applyMax\<close> read the clock: \<^verbatim>\<open>now\<close>.\<close>

definition applyCount :: "Time \<Rightarrow> MetricSeries list \<Rightarrow> eval_error + MetricSeries list" where
  "applyCount now series =
     Inr [\<lparr>SeriesMetricName = ''count'', SeriesLabels = [],
           Points = [\<lparr>Timestamp = now, Value = Finite (real (length series)),
                      PointLabels = []\<rparr>]\<rparr>]"

definition allValues :: "MetricSeries list \<Rightarrow> float64 list" where
  "allValues series = concat (map (\<lambda>s. map Value (Points s)) series)"

definition applyMin :: "Time \<Rightarrow> MetricSeries list \<Rightarrow> eval_error + MetricSeries list" where
  "applyMin now series =
     (if series = [] then Inr series
      else Inr [\<lparr>SeriesMetricName = SeriesMetricName (hd series), SeriesLabels = [],
                 Points = [\<lparr>Timestamp = now,
                            Value = foldl (\<lambda>m v. if fless v m then v else m) PosInf
                                          (allValues series),
                            PointLabels = []\<rparr>]\<rparr>])"

definition applyMax :: "Time \<Rightarrow> MetricSeries list \<Rightarrow> eval_error + MetricSeries list" where
  "applyMax now series =
     (if series = [] then Inr series
      else Inr [\<lparr>SeriesMetricName = SeriesMetricName (hd series), SeriesLabels = [],
                 Points = [\<lparr>Timestamp = now,
                            Value = foldl (\<lambda>m v. if fless m v then v else m) NegInf
                                          (allValues series),
                            PointLabels = []\<rparr>]\<rparr>])"

definition applyFunction :: "Time \<Rightarrow> MetricSeries list \<Rightarrow> string \<Rightarrow> int \<Rightarrow> eval_error + MetricSeries list" where
  "applyFunction now series function rangeDuration =
     (if function = ''rate'' then applyRate series rangeDuration
      else if function = ''increase'' then applyIncrease series rangeDuration
      else if function = ''sum'' then applySum series
      else if function = ''avg'' then applyAvg series
      else if function = ''count'' then applyCount now series
      else if function = ''min'' then applyMin now series
      else if function = ''max'' then applyMax now series
      else Inl (UnsupportedFunction function))"

definition applyAggregation :: "Time \<Rightarrow> MetricSeries list \<Rightarrow> Aggregation \<Rightarrow> eval_error + MetricSeries list" where
  "applyAggregation now series agg =
     (if Operation agg = ''sum'' then applySum series
      else if Operation agg = ''avg'' then applyAvg series
      else if Operation agg = ''count'' then applyCount now series
      else if Operation agg = ''min'' then applyMin now series
      else if Operation agg = ''max'' then applyMax now series
      else Inl (UnsupportedAggregation (Operation agg)))"

definition Evaluate ::
  "(DB \<Rightarrow> string \<Rightarrow> sql_arg list \<Rightarrow> bool) \<Rightarrow> DB \<Rightarrow> Time \<Rightarrow> Context \<Rightarrow> Query \<Rightarrow> Time \<Rightarrow> Time
   \<Rightarrow> eval_error + QueryResult" where
  "Evaluate accepts db now ctx query startTime endTime =
     (case getMetricSeries accepts db ctx query startTime endTime of
        Inl err \<Rightarrow> Inl (FailedToGetMetricSeries err)
      | Inr series \<Rightarrow>
          (case (if Function query \<noteq> []
                 then applyFunction now series (Function query) (RangeDur query)
                 else Inr series) of
             Inl err \<Rightarrow> Inl (FailedToApplyFunction (Function query) err)
           | Inr series1 \<Rightarrow>
               (case (case Aggregation query of
                        Some agg \<Rightarrow> applyAggregation now series1 agg
                      | None \<Rightarrow> Inr series1) of
                  Inl err \<Rightarrow> Inl (FailedToApplyAggregation err)
                | Inr series2 \<Rightarrow> Inr \<lparr>Series = series2, Type = ''vector''\<rparr>)))"

section \<open>The JSON over HTTP adapter (ingestion/service.go)\<close>

text \<open>
  \<^verbatim>\<open>time.Parse(time.RFC3339Nano, s)\<close>, on the strict grammar of RFC 3339:
  \<^verbatim>\<open>YYYY-MM-DDTHH:MM:SS\<close>, an optional fraction of a second, and \<^verbatim>\<open>Z\<close> or an offset
  \<^verbatim>\<open>+HH:MM\<close>. \<^term>\<open>None\<close> is the error, with which Go returns the zero \<^verbatim>\<open>Time\<close>
  (1 January of the year 1, UTC).
\<close>

definition zeroTime :: Time where
  "zeroTime = - 62135596800 * 1000000000"

definition digitsN :: "nat \<Rightarrow> string \<Rightarrow> int option" where
  "digitsN n s = (if length s = n \<and> list_all isDigit s then Some (decimal s) else None)"

definition isLeap :: "int \<Rightarrow> bool" where
  "isLeap y = (y mod 4 = 0 \<and> (if y mod 100 = 0 then y mod 400 = 0 else True))"

definition daysIn :: "int \<Rightarrow> int \<Rightarrow> int" where
  "daysIn m y =
     (if m = 2 then (if isLeap y then 29 else 28)
      else if m = 4 \<or> m = 6 \<or> m = 9 \<or> m = 11 then 30 else 31)"

definition daysSinceEpoch :: "int \<Rightarrow> int \<Rightarrow> int \<Rightarrow> int" where
  "daysSinceEpoch y m d =
     (let y1 = (if m \<le> 2 then y - 1 else y);
          era = y1 div 400;
          yoe = y1 - era * 400;
          doy = (153 * (if 2 < m then m - 3 else m + 9) + 2) div 5 + d - 1;
          doe = yoe * 365 + yoe div 4 - yoe div 100 + doy
      in era * 146097 + doe - 719468)"

definition parseFraction :: "string \<Rightarrow> (int \<times> string) option" where
  "parseFraction s =
     (case s of
        c # d # r \<Rightarrow>
          (if c = CHR ''.'' \<and> isDigit d then
             (let ds = takeWhile isDigit (d # r);
                  nine = take 9 (ds @ ''000000000'')
              in Some (decimal nine, dropWhile isDigit (d # r)))
           else Some (0, s))
      | _ \<Rightarrow> Some (0, s))"

definition parseZone :: "string \<Rightarrow> int option" where
  "parseZone s =
     (if s = ''Z'' then Some 0
      else if length s = 6 \<and> (hd s = CHR ''+'' \<or> hd s = CHR ''-'') \<and> s ! 3 = CHR '':'' then
        (case (digitsN 2 (take 2 (drop 1 s)), digitsN 2 (drop 4 s)) of
           (Some hh, Some mm) \<Rightarrow>
             (if hh \<le> 23 \<and> mm \<le> 59
              then Some ((if hd s = CHR ''-'' then - 1 else 1) * (hh * 3600 + mm * 60))
              else None)
         | _ \<Rightarrow> None)
      else None)"

definition time_Parse_RFC3339Nano :: "string \<Rightarrow> Time option" where
  "time_Parse_RFC3339Nano s =
     (if 19 \<le> length s \<and> s ! 4 = CHR ''-'' \<and> s ! 7 = CHR ''-'' \<and> s ! 10 = CHR ''T''
         \<and> s ! 13 = CHR '':'' \<and> s ! 16 = CHR '':'' then
        (case (digitsN 4 (take 4 s), digitsN 2 (take 2 (drop 5 s)), digitsN 2 (take 2 (drop 8 s)),
               digitsN 2 (take 2 (drop 11 s)), digitsN 2 (take 2 (drop 14 s)),
               digitsN 2 (take 2 (drop 17 s))) of
           (Some y, Some mo, Some d, Some h, Some mi, Some sec) \<Rightarrow>
             (if 1 \<le> mo \<and> mo \<le> 12 \<and> 1 \<le> d \<and> d \<le> daysIn mo y \<and> h \<le> 23 \<and> mi \<le> 59
                 \<and> sec \<le> 59
              then (case parseFraction (drop 19 s) of
                      None \<Rightarrow> None
                    | Some (nsec, rest) \<Rightarrow>
                        (case parseZone rest of
                           None \<Rightarrow> None
                         | Some off \<Rightarrow>
                             Some (time_Unix
                                     (daysSinceEpoch y mo d * 86400 + h * 3600 + mi * 60 + sec - off)
                                     nsec)))
              else None)
         | _ \<Rightarrow> None)
      else None)"

definition parseOrZero :: "string \<Rightarrow> Time" where
  "parseOrZero s = (case time_Parse_RFC3339Nano s of None \<Rightarrow> zeroTime | Some t \<Rightarrow> t)"

text \<open>
  The request structs of the handlers: an attribute is a key and the \<^verbatim>\<open>stringValue\<close> of
  its value; a resource is its attribute list.
\<close>

record HTTPSpan =
  h_TraceId :: string
  h_SpanId :: string
  h_ParentSpanId :: string
  h_Name :: string
  h_StartTimeUnixNano :: string
  h_EndTimeUnixNano :: string
  h_StatusCode :: string
  h_Attributes :: "(string \<times> string) list"

fun extractServiceNameFromResource :: "(string \<times> string) list \<Rightarrow> string" where
  "extractServiceNameFromResource [] = ''unknown''"
| "extractServiceNameFromResource ((key, stringValue) # attrs) =
     (if key = ''service.name'' then stringValue else extractServiceNameFromResource attrs)"

text \<open>\<^verbatim>\<open>json.Marshal\<close> of a map writes the members in the order of their keys.\<close>

definition marshalObject :: "(string \<times> json) list \<Rightarrow> (string \<times> json) list" where
  "marshalObject m = sort_key fst m"

definition convertAttributesToJSON :: "(string \<times> string) list \<Rightarrow> (string \<times> json) list" where
  "convertAttributesToJSON attrs =
     (if attrs = [] then []
      else marshalObject (foldl (\<lambda>m (k, v). AList.update k (JString v) m) [] attrs))"

definition HandleTraces_trace :: "string \<Rightarrow> HTTPSpan \<Rightarrow> Trace" where
  "HandleTraces_trace serviceName sp =
     (let startTime = parseOrZero (h_StartTimeUnixNano sp);
          endTime = parseOrZero (h_EndTimeUnixNano sp)
      in \<lparr>TraceID = h_TraceId sp,
          SpanID = h_SpanId sp,
          ParentSpanID = (if h_ParentSpanId sp \<noteq> [] then Some (h_ParentSpanId sp) else None),
          ServiceName = serviceName,
          OperationName = h_Name sp,
          StartTime = startTime,
          DurationNanos = Sub endTime startTime,
          Attributes = convertAttributesToJSON (h_Attributes sp),
          StatusCode = h_StatusCode sp\<rparr>)"

text \<open>A failed insert is logged and the loop goes on with the database as it was.\<close>

definition insertTraceLogged :: "DB \<Rightarrow> Trace \<Rightarrow> DB" where
  "insertTraceLogged db trace = (case InsertTrace db trace of Inl err \<Rightarrow> db | Inr db' \<Rightarrow> db')"

definition HandleTraces :: "DB \<Rightarrow> ((string \<times> string) list \<times> HTTPSpan list list) list \<Rightarrow> DB" where
  "HandleTraces db resourceSpans =
     foldl (\<lambda>db1 (resource, scopeSpans).
              foldl (\<lambda>db2 spans.
                       foldl (\<lambda>db3 sp.
                                insertTraceLogged db3
                                  (HandleTraces_trace (extractServiceNameFromResource resource) sp))
                             db2 spans)
                    db1 scopeSpans)
           db resourceSpans"

section \<open>The RPC adapter (package grpc)\<close>

text \<open>
  The decoded protobuf messages. An \<^verbatim>\<open>AnyValue\<close> is one of its alternatives or has none
  set; the \<^verbatim>\<open>Value\<close> of a \<^verbatim>\<open>KeyValue\<close> and the \<^verbatim>\<open>Resource\<close> and \<^verbatim>\<open>Status\<close> of their
  parents are pointers, so options. The elements of repeated fields are present.
\<close>

datatype any_value =
    StringValue string
  | BoolValue bool
  | IntValue int
  | DoubleValue float64
  | ArrayValue "any_value list"
  | KvlistValue "(string \<times> any_value) list"
  | BytesValue string
  | NoValue

definition GetStringValue :: "any_value option \<Rightarrow> string" where
  "GetStringValue v = (case v of Some (StringValue s) \<Rightarrow> s | _ \<Rightarrow> [])"

fun extractServiceName_attrs :: "(string \<times> any_value option) list \<Rightarrow> string" where
  "extractServiceName_attrs [] = ''unknown''"
| "extractServiceName_attrs ((key, v) # attrs) =
     (if key = ''service.name'' \<and> GetStringValue v \<noteq> [] then GetStringValue v
      else extractServiceName_attrs attrs)"

definition extractServiceName :: "(string \<times> any_value option) list option \<Rightarrow> string" where
  "extractServiceName resource =
     (case resource of None \<Rightarrow> ''unknown'' | Some attrs \<Rightarrow> extractServiceName_attrs attrs)"

text \<open>\<^verbatim>\<open>Status.Code\<close> is the wire enum: 0 unset, 1 ok, 2 error.\<close>

definition convertStatusCode :: "int option \<Rightarrow> string" where
  "convertStatusCode status =
     (case status of
        None \<Rightarrow> ''UNSET''
      | Some code \<Rightarrow>
          (if code = 0 then ''UNSET'' else if code = 1 then ''OK''
           else if code = 2 then ''ERROR'' else ''UNKNOWN''))"

text \<open>
  \<^verbatim>\<open>convertAttributeValue\<close> returns \<^verbatim>\<open>nil\<close> (here \<^term>\<open>None\<close>) for an alternative it does
  not know; inside an array or a map a \<^verbatim>\<open>nil\<close> is written as \<^verbatim>\<open>null\<close>.
\<close>

fun convertValue :: "any_value \<Rightarrow> json option" where
  "convertValue (StringValue s) = Some (JString s)"
| "convertValue (BoolValue b) = Some (JBool b)"
| "convertValue (IntValue i) = Some (JInt i)"
| "convertValue (DoubleValue d) = Some (JDouble d)"
| "convertValue (ArrayValue vs) =
     Some (JArray (map (\<lambda>v. case convertValue v of None \<Rightarrow> JNull | Some j \<Rightarrow> j) vs))"
| "convertValue (KvlistValue kvs) =
     Some (JObject (marshalObject
       (foldl (\<lambda>m kv. AList.update (fst kv)
                        (case convertValue (snd kv) of None \<Rightarrow> JNull | Some j \<Rightarrow> j) m) [] kvs)))"
| "convertValue (BytesValue b) = None"
| "convertValue NoValue = None"

definition convertAttributeValue :: "any_value option \<Rightarrow> json option" where
  "convertAttributeValue v = (case v of None \<Rightarrow> None | Some a \<Rightarrow> convertValue a)"

definition convertAttributes :: "(string \<times> any_value option) list \<Rightarrow> (string \<times> json) list" where
  "convertAttributes attrs =
     (if attrs = [] then []
      else marshalObject
             (foldl (\<lambda>m (k, v). case convertAttributeValue v of
                                   None \<Rightarrow> m
                                 | Some j \<Rightarrow> AList.update k j m) [] attrs))"

record PBSpan =
  g_TraceId :: string
  g_SpanId :: string
  g_ParentSpanId :: string
  g_Name :: string
  g_StartTimeUnixNano :: "64 word"
  g_EndTimeUnixNano :: "64 word"
  g_Status :: "int option"
  g_Attributes :: "(string \<times> any_value option) list"

definition processSpan_trace :: "PBSpan \<Rightarrow> string \<Rightarrow> Trace" where
  "processSpan_trace sp serviceName =
     \<lparr>TraceID = g_TraceId sp,
      SpanID = g_SpanId sp,
      ParentSpanID = (if 0 < length (g_ParentSpanId sp) then Some (g_ParentSpanId sp) else None),
      ServiceName = serviceName,
      OperationName = g_Name sp,
      StartTime = time_Unix 0 (sint (g_StartTimeUnixNano sp)),
      DurationNanos = sint (g_EndTimeUnixNano sp - g_StartTimeUnixNano sp),
      Attributes = convertAttributes (g_Attributes sp),
      StatusCode = convertStatusCode (g_Status sp)\<rparr>"

definition processSpan :: "DB \<Rightarrow> PBSpan \<Rightarrow> string \<Rightarrow> sql_error + DB" where
  "processSpan db sp serviceName = InsertTrace db (processSpan_trace sp serviceName)"

definition processResourceSpan :: "DB \<Rightarrow> (string \<times> any_value option) list option \<times> PBSpan list list \<Rightarrow> DB" where
  "processResourceSpan db resourceSpan =
     foldl (\<lambda>db1 spans.
              foldl (\<lambda>db2 sp.
                       case processSpan db2 sp (extractServiceName (fst resourceSpan)) of
                         Inl err \<Rightarrow> db2
                       | Inr db' \<Rightarrow> db')
                    db1 spans)
           db (snd resourceSpan)"

definition Export :: "DB \<Rightarrow> ((string \<times> any_value option) list option \<times> PBSpan list list) list \<Rightarrow> DB" where
  "Export db resourceSpans = foldl processResourceSpan db resourceSpans"

section \<open>The windows of rate and increase as the specification words them\<close>

text \<open>
  Two definitions that follow the words of the specification, not the code; the
  evaluator's own loops are \<^const>\<open>findPrev\<close> and \<^const>\<open>findStart\<close> above.
  For \<^verbatim>\<open>rate\<close>: some earlier point of the series has its timestamp within the half-open
  window from \<^verbatim>\<open>timestamp_j - rangeDuration\<close> (included) to \<^verbatim>\<open>timestamp_j\<close> (excluded).
  For \<^verbatim>\<open>increase\<close>: the value at \<^verbatim>\<open>j\<close> minus the value of the earliest point of the
  series whose timestamp is at or before \<^verbatim>\<open>timestamp_j - rangeDuration\<close>.
\<close>

definition spec_rate_emits :: "MetricPoint list \<Rightarrow> int \<Rightarrow> nat \<Rightarrow> bool" where
  "spec_rate_emits pts rangeDuration j =
     list_ex (\<lambda>k. Timestamp (pts ! j) - rangeDuration \<le> Timestamp (pts ! k)
                  \<and> Timestamp (pts ! k) < Timestamp (pts ! j)) [0..<j]"

definition spec_increase_value :: "MetricPoint list \<Rightarrow> int \<Rightarrow> nat \<Rightarrow> float64 option" where
  "spec_increase_value pts rangeDuration j =
     map_option (\<lambda>p. fsub (Value (pts ! j)) (Value p))
       (find (\<lambda>p. Timestamp p \<le> Timestamp (pts ! j) - rangeDuration) pts)"

section \<open>Auxiliary facts\<close>

lemma wrap64_id: "- (2 ^ 63) \<le> x \<Longrightarrow> x < 2 ^ 63 \<Longrightarrow> wrap64 x = x"
  by (simp add: wrap64_def)

lemma foldl_appendSome:
  "foldl (\<lambda>acc j. appendSome acc (f j)) acc xs = acc @ List.map_filter f xs"
  by (induction xs arbitrary: acc)
     (auto simp: appendSome_def List.map_filter_simps split: option.splits)

lemma findPrev_None:
  "(findPrev pts rs n = None) = (\<forall>k<n. \<not> rs < Timestamp (pts ! k))"
  by (induction n) (auto simp: After_def less_Suc_eq)

lemma findPrev_Some:
  "k < n \<Longrightarrow> rs < Timestamp (pts ! k)
   \<Longrightarrow> (\<forall>i. k < i \<and> i < n \<longrightarrow> \<not> rs < Timestamp (pts ! i))
   \<Longrightarrow> findPrev pts rs n = Some (pts ! k)"
proof (induction n)
  case 0
  then show ?case by simp
next
  case (Suc n)
  show ?case
  proof (cases "k = n")
    case True
    with Suc.prems show ?thesis by (simp add: After_def)
  next
    case False
    with Suc.prems have kn: "k < n" by simp
    from Suc.prems kn have "\<not> rs < Timestamp (pts ! n)" by simp
    moreover have "findPrev pts rs n = Some (pts ! k)"
      using Suc.IH kn Suc.prems by simp
    ultimately show ?thesis by (simp add: After_def)
  qed
qed

lemma findStart_None:
  "(findStart pts rs n = None) = (\<forall>k<n. rs < Timestamp (pts ! k))"
  by (induction n) (auto simp: Before_def Equal_def less_Suc_eq)

lemma findStart_Some:
  "k < n \<Longrightarrow> Timestamp (pts ! k) \<le> rs
   \<Longrightarrow> (\<forall>i. k < i \<and> i < n \<longrightarrow> rs < Timestamp (pts ! i))
   \<Longrightarrow> findStart pts rs n = Some (pts ! k)"
proof (induction n)
  case 0
  then show ?case by simp
next
  case (Suc n)
  show ?case
  proof (cases "k = n")
    case True
    with Suc.prems show ?thesis by (auto simp: Before_def Equal_def)
  next
    case False
    with Suc.prems have kn: "k < n" by simp
    from Suc.prems kn have "rs < Timestamp (pts ! n)" by simp
    moreover have "findStart pts rs n = Some (pts ! k)"
      using Suc.IH kn Suc.prems by simp
    ultimately show ?thesis by (simp add: Before_def Equal_def)
  qed
qed

lemma firstAt_None: "(firstAt ps ts = None) = (ts \<notin> Timestamp ` set ps)"
  by (induction ps) (auto simp: Equal_def)

lemma firstAt_Some:
  "ts \<in> Timestamp ` set ps
   \<Longrightarrow> firstAt ps ts = Some (Value (the (find (\<lambda>q. Timestamp q = ts) ps)))"
  by (induction ps) (auto simp: Equal_def)

lemma sumAt_fold:
  "foldl (\<lambda>sum s. case firstAt (Points s) ts of None \<Rightarrow> sum | Some v \<Rightarrow> fadd sum v) acc series =
   foldl fadd acc
     (map (\<lambda>s. Value (the (find (\<lambda>q. Timestamp q = ts) (Points s))))
          (filter (\<lambda>s. ts \<in> Timestamp ` set (Points s)) series))"
proof (induction series arbitrary: acc)
  case Nil
  then show ?case by simp
next
  case (Cons s series)
  show ?case
  proof (cases "ts \<in> Timestamp ` set (Points s)")
    case True
    then show ?thesis using Cons.IH by (simp add: firstAt_Some)
  next
    case False
    then have "firstAt (Points s) ts = None" by (simp add: firstAt_None)
    then show ?thesis using False Cons.IH by simp
  qed
qed

lemma allTimestamps_strict: "sorted_wrt (<) (allTimestamps series)"
  by (simp add: allTimestamps_def strict_sorted_iff)

lemma set_allTimestamps:
  "set (allTimestamps series) = (\<Union>s\<in>set series. Timestamp ` set (Points s))"
  by (auto simp: allTimestamps_def)

lemma digits_never_RFC3339: "list_all isDigit s \<Longrightarrow> time_Parse_RFC3339Nano s = None"
proof (cases "19 \<le> length s \<and> s ! 4 = CHR ''-''")
  case True
  assume "list_all isDigit s"
  then have "\<forall>n<length s. isDigit (s ! n)" by (simp add: list_all_length)
  moreover from True have "4 < length s" by simp
  ultimately have "isDigit (s ! 4)" by blast
  with True have "isDigit CHR ''-''" by simp
  then show ?thesis by (simp add: isDigit_def)
next
  case False
  then show ?thesis by (auto simp: time_Parse_RFC3339Nano_def)
qed

lemma rate_example_5s:
  "ratePoints [\<lparr>Timestamp = 0, Value = Finite 10, PointLabels = []\<rparr>,
               \<lparr>Timestamp = 10 * Second, Value = Finite 30, PointLabels = []\<rparr>] (5 * Second) = []"
  by code_simp

lemma rate_example_15s:
  "ratePoints [\<lparr>Timestamp = 0, Value = Finite 10, PointLabels = []\<rparr>,
               \<lparr>Timestamp = 10 * Second, Value = Finite 30, PointLabels = []\<rparr>] (15 * Second)
   = [\<lparr>Timestamp = 10 * Second, Value = Finite 2, PointLabels = []\<rparr>]"
  by code_simp

lemma ratePoint_emits_iff:
  assumes "- (2 ^ 63) < rangeDuration" "rangeDuration < 2 ^ 63" "0 < j"
  shows "(ratePoint pts rangeDuration j \<noteq> None)
           = (\<exists>k<j. Timestamp (pts ! j) - rangeDuration < Timestamp (pts ! k))"
proof -
  have w: "wrap64 (- rangeDuration) = - rangeDuration"
    using assms by (intro wrap64_id) auto
  have "(ratePoint pts rangeDuration j = None)
           = (findPrev pts (Timestamp (pts ! j) - rangeDuration) j = None)"
    using assms(3) by (simp add: ratePoint_def Let_def Add_def w split: option.splits)
  then show ?thesis by (auto simp: findPrev_None)
qed

lemma ratePoint_value:
  assumes "- (2 ^ 63) < rangeDuration" "rangeDuration < 2 ^ 63" "0 < j" "k < j"
    and "Timestamp (pts ! j) - rangeDuration < Timestamp (pts ! k)"
    and "\<forall>i. k < i \<and> i < j \<longrightarrow> Timestamp (pts ! i) \<le> Timestamp (pts ! j) - rangeDuration"
  shows "ratePoint pts rangeDuration j =
           Some \<lparr>Timestamp = Timestamp (pts ! j),
                 Value = fdiv (fsub (Value (pts ! j)) (Value (pts ! k)))
                              (Seconds (Sub (Timestamp (pts ! j)) (Timestamp (pts ! k)))),
                 PointLabels = PointLabels (pts ! j)\<rparr>"
proof -
  have w: "wrap64 (- rangeDuration) = - rangeDuration"
    using assms by (intro wrap64_id) auto
  have "findPrev pts (Timestamp (pts ! j) - rangeDuration) j = Some (pts ! k)"
    using assms by (intro findPrev_Some) (auto simp: not_less)
  then show ?thesis using assms(3) by (simp add: ratePoint_def Let_def Add_def w)
qed

lemma increasePoint_emits_iff:
  assumes "- (2 ^ 63) < rangeDuration" "rangeDuration < 2 ^ 63"
  shows "(increasePoint pts rangeDuration j \<noteq> None)
           = (\<exists>k\<le>j. Timestamp (pts ! k) \<le> Timestamp (pts ! j) - rangeDuration)"
proof -
  have w: "wrap64 (- rangeDuration) = - rangeDuration"
    using assms by (intro wrap64_id) auto
  have "(increasePoint pts rangeDuration j = None)
           = (findStart pts (Timestamp (pts ! j) - rangeDuration) (Suc j) = None)"
    by (simp add: increasePoint_def Let_def Add_def w del: findStart.simps split: option.splits)
  also have "\<dots> = (\<forall>k<Suc j. Timestamp (pts ! j) - rangeDuration < Timestamp (pts ! k))"
    by (rule findStart_None)
  finally show ?thesis by (auto simp: less_Suc_eq_le not_le)
qed

lemma increasePoint_value:
  assumes "- (2 ^ 63) < rangeDuration" "rangeDuration < 2 ^ 63" "k \<le> j"
    and "Timestamp (pts ! k) \<le> Timestamp (pts ! j) - rangeDuration"
    and "\<forall>i. k < i \<and> i \<le> j \<longrightarrow> Timestamp (pts ! j) - rangeDuration < Timestamp (pts ! i)"
  shows "increasePoint pts rangeDuration j =
           Some \<lparr>Timestamp = Timestamp (pts ! j),
                 Value = fsub (Value (pts ! j)) (Value (pts ! k)),
                 PointLabels = PointLabels (pts ! j)\<rparr>"
proof -
  have w: "wrap64 (- rangeDuration) = - rangeDuration"
    using assms by (intro wrap64_id) auto
  have "findStart pts (Timestamp (pts ! j) - rangeDuration) (Suc j) = Some (pts ! k)"
    using assms by (intro findStart_Some) (auto simp: less_Suc_eq_le)
  then show ?thesis by (simp add: increasePoint_def Let_def Add_def w del: findStart.simps)
qed

lemma sum_example:
  "applySum [\<lparr>SeriesMetricName = ''m'', SeriesLabels = [(''service'', ''a'')],
              Points = [\<lparr>Timestamp = 7 * Second, Value = Finite 3, PointLabels = [(''service'', ''a'')]\<rparr>]\<rparr>,
             \<lparr>SeriesMetricName = ''m'', SeriesLabels = [(''service'', ''b'')],
              Points = [\<lparr>Timestamp = 7 * Second, Value = Finite 4, PointLabels = [(''service'', ''b'')]\<rparr>]\<rparr>]
   = Inr [\<lparr>SeriesMetricName = ''m'', SeriesLabels = [],
           Points = [\<lparr>Timestamp = 7 * Second, Value = Finite 7, PointLabels = []\<rparr>]\<rparr>]"
  by code_simp

lemma strict_nth_less:
  assumes "sorted_wrt (<) (map Timestamp pts)" "i < length pts" "j < length pts"
  shows "(Timestamp (pts ! i) < Timestamp (pts ! j)) = (i < j)"
proof -
  have mono: "Timestamp (pts ! a) < Timestamp (pts ! b)" if "a < b" "b < length pts" for a b
    using assms(1) that by (simp add: sorted_wrt_iff_nth_less)
  show ?thesis
  proof (cases "i < j")
    case True
    then show ?thesis using mono assms(3) by simp
  next
    case False
    show ?thesis
    proof (cases "i = j")
      case True
      then show ?thesis by simp
    next
      case ne: False
      with False have "j < i" by simp
      then have "Timestamp (pts ! j) < Timestamp (pts ! i)" using mono assms(2) by simp
      with False show ?thesis by simp
    qed
  qed
qed

lemma select_example_C1:
  "selectMetricRows
     \<lparr>metrics = [\<lparr>col_timestamp = 1000000000, col_metric_name = ''m'',
                   col_value = Finite 5, col_labels = [], col_service_name = ''api''\<rparr>],
      traces = [], closed = False\<rparr>
     (metricOnly ''m'' []) (time_Unix 0 0) (time_Unix 2 0) = []"
  by code_simp

lemma group_example_C3:
  "groupRows (MetricName (metricOnly ''m'' []))
     (selectMetricRows
        \<lparr>metrics = [\<lparr>col_timestamp = 1, col_metric_name = ''m'', col_value = Finite 1,
                      col_labels = [(''method'', JString ''GET'')], col_service_name = ''api''\<rparr>,
                    \<lparr>col_timestamp = 2, col_metric_name = ''m'', col_value = Finite 2,
                      col_labels = [(''method'', JString ''POST'')], col_service_name = ''api''\<rparr>],
         traces = [], closed = False\<rparr>
        (metricOnly ''m'' []) (time_Unix 0 0) (time_Unix 10 0))
   = [\<lparr>SeriesMetricName = ''m'', SeriesLabels = [(''service'', ''api'')],
       Points = [\<lparr>Timestamp = 1000000000, Value = Finite 1,
                  PointLabels = [(''service'', ''api'')]\<rparr>,
                \<lparr>Timestamp = 2000000000, Value = Finite 2,
                  PointLabels = [(''service'', ''api'')]\<rparr>]\<rparr>]"
  by code_simp

lemma insert_example_C1:
  "InsertMetric \<lparr>metrics = [], traces = [], closed = False\<rparr>
     \<lparr>m_Timestamp = time_Unix 1 0, m_MetricName = ''m'', m_Value = Finite 5, m_Labels = [],
      m_ServiceName = ''api''\<rparr>
   = Inr \<lparr>metrics = [\<lparr>col_timestamp = 1000000000, col_metric_name = ''m'',
                       col_value = Finite 5, col_labels = [], col_service_name = ''api''\<rparr>],
          traces = [], closed = False\<rparr>"
  by code_simp

lemma evaluate_count_example:
  "Evaluate (\<lambda>db text args. True)
     \<lparr>metrics = [\<lparr>col_timestamp = 1, col_metric_name = ''m'', col_value = Finite 1,
                   col_labels = [], col_service_name = ''api''\<rparr>],
      traces = [], closed = False\<rparr>
     (time_Unix 5 0) Active
     \<lparr>MetricName = ''m'', Labels = [], Function = [], RangeDur = 0, Offset = 0,
      Aggregation = Some \<lparr>Operation = ''count'', By = [], Without = []\<rparr>\<rparr>
     (time_Unix 0 0) (time_Unix 10 0)
   = Inr \<lparr>Series = [\<lparr>SeriesMetricName = ''count'', SeriesLabels = [],
                     Points = [\<lparr>Timestamp = 5000000000, Value = Finite 1, PointLabels = []\<rparr>]\<rparr>],
          Type = ''vector''\<rparr>"
  by code_simp

section \<open>Fetching what was inserted (C1)\<close>

text \<open>
  Claim C1: a metric record inserted with timestamp \<open>t\<close> is found by an evaluator fetch
  for its metric name over an inclusive window that contains \<open>t\<close>, with a point at \<open>t\<close>
  and the record's value.

  The code at a concrete input: \<^const>\<open>InsertMetric\<close> stores \<^verbatim>\<open>Timestamp.UnixNano()\<close>, a
  count of nanoseconds, and \<^const>\<open>getMetricSeries\<close> compares the column with
  \<^verbatim>\<open>startTime.Unix()\<close> and \<^verbatim>\<open>endTime.Unix()\<close>, counts of seconds. A record one second
  after the epoch, fetched over the window from the epoch to two seconds after it with no
  label constraint, is stored as 1000000000 and compared with 0 and 2: with a live
  context, the fetch returns no series when the engine takes the statement (and an error
  if it did not).
\<close>

theorem fetch_misses_inserted_metric:
  "InsertMetric \<lparr>metrics = [], traces = [], closed = False\<rparr>
     \<lparr>m_Timestamp = time_Unix 1 0, m_MetricName = ''m'', m_Value = Finite 5, m_Labels = [],
      m_ServiceName = ''api''\<rparr>
   = Inr \<lparr>metrics = [\<lparr>col_timestamp = 1000000000, col_metric_name = ''m'',
                       col_value = Finite 5, col_labels = [], col_service_name = ''api''\<rparr>],
          traces = [], closed = False\<rparr>
   \<and> getMetricSeries accepts
       \<lparr>metrics = [\<lparr>col_timestamp = 1000000000, col_metric_name = ''m'',
                     col_value = Finite 5, col_labels = [], col_service_name = ''api''\<rparr>],
        traces = [], closed = False\<rparr>
       Active (metricOnly ''m'' []) (time_Unix 0 0) (time_Unix 2 0)
     = (if accepts
             \<lparr>metrics = [\<lparr>col_timestamp = 1000000000, col_metric_name = ''m'',
                           col_value = Finite 5, col_labels = [], col_service_name = ''api''\<rparr>],
              traces = [], closed = False\<rparr>
             (sqlQuery (metricOnly ''m'' []))
             (sqlArgs (metricOnly ''m'' []) (time_Unix 0 0) (time_Unix 2 0))
        then Inr [] else Inl (DatabaseQueryFailed StatementFailed))"
  using insert_example_C1 select_example_C1
  by (simp add: getMetricSeries_def QueryContext_def groupRows_def)

section \<open>The two adapters on one span (C2)\<close>

text \<open>
  Claim C2: decoding the RPC form and the JSON form of one trace payload gives the same
  canonical span; both give a start time equal to the wire's nanoseconds since the epoch
  and a duration of end minus start.

  The code at a concrete input, a span from 1000000000 to 2000000000 nanoseconds:
  \<^const>\<open>processSpan_trace\<close> gives the start 1000000000 and the duration 1000000000;
  \<^const>\<open>HandleTraces_trace\<close> reads the two decimal texts with
  \<^verbatim>\<open>time.Parse(time.RFC3339Nano, ...)\<close>, drops the error, and gives the zero time and
  the duration 0. (The status code differs too: the text of the wire on one side, the
  name of the enum on the other.)
\<close>

theorem adapters_disagree_on_span_times:
  "HandleTraces_trace ''svc''
     \<lparr>h_TraceId = ''ab'', h_SpanId = ''cd'', h_ParentSpanId = [], h_Name = ''op'',
      h_StartTimeUnixNano = ''1000000000'', h_EndTimeUnixNano = ''2000000000'',
      h_StatusCode = [], h_Attributes = []\<rparr>
   = \<lparr>TraceID = ''ab'', SpanID = ''cd'', ParentSpanID = None, ServiceName = ''svc'',
      OperationName = ''op'', StartTime = - 62135596800000000000, DurationNanos = 0,
      Attributes = [], StatusCode = []\<rparr>
   \<and> processSpan_trace
     \<lparr>g_TraceId = ''ab'', g_SpanId = ''cd'', g_ParentSpanId = [], g_Name = ''op'',
      g_StartTimeUnixNano = 1000000000, g_EndTimeUnixNano = 2000000000,
      g_Status = None, g_Attributes = []\<rparr> ''svc''
   = \<lparr>TraceID = ''ab'', SpanID = ''cd'', ParentSpanID = None, ServiceName = ''svc'',
      OperationName = ''op'', StartTime = 1000000000, DurationNanos = 1000000000,
      Attributes = [], StatusCode = ''UNSET''\<rparr>"
  by code_simp

section \<open>Grouping rows into series (C3)\<close>

text \<open>
  Claim C3: two fetched rows are placed in the same series if and only if their label
  sets are identical, the key being the sorted \<^verbatim>\<open>key=value\<close> texts joined.

  The code at a concrete input: \<^const>\<open>addRow\<close> builds the label map of a row from its
  \<^verbatim>\<open>service_name\<close> column alone and never reads the \<^verbatim>\<open>labels\<close> column it has
  scanned. Two rows of one service with the label sets \<^verbatim>\<open>{method: GET}\<close> and
  \<^verbatim>\<open>{method: POST}\<close> come back as one series of two points (with a live context, when
  the engine takes the statement).
\<close>

theorem grouping_ignores_row_labels:
  "getMetricSeries accepts
     \<lparr>metrics = [\<lparr>col_timestamp = 1, col_metric_name = ''m'', col_value = Finite 1,
                   col_labels = [(''method'', JString ''GET'')], col_service_name = ''api''\<rparr>,
                 \<lparr>col_timestamp = 2, col_metric_name = ''m'', col_value = Finite 2,
                   col_labels = [(''method'', JString ''POST'')], col_service_name = ''api''\<rparr>],
      traces = [], closed = False\<rparr>
     Active (metricOnly ''m'' []) (time_Unix 0 0) (time_Unix 10 0)
   = (if accepts
           \<lparr>metrics = [\<lparr>col_timestamp = 1, col_metric_name = ''m'', col_value = Finite 1,
                         col_labels = [(''method'', JString ''GET'')], col_service_name = ''api''\<rparr>,
                       \<lparr>col_timestamp = 2, col_metric_name = ''m'', col_value = Finite 2,
                         col_labels = [(''method'', JString ''POST'')], col_service_name = ''api''\<rparr>],
            traces = [], closed = False\<rparr>
           (sqlQuery (metricOnly ''m'' []))
           (sqlArgs (metricOnly ''m'' []) (time_Unix 0 0) (time_Unix 10 0))
      then Inr [\<lparr>SeriesMetricName = ''m'', SeriesLabels = [(''service'', ''api'')],
                 Points = [\<lparr>Timestamp = 1000000000, Value = Finite 1,
                            PointLabels = [(''service'', ''api'')]\<rparr>,
                          \<lparr>Timestamp = 2000000000, Value = Finite 2,
                            PointLabels = [(''service'', ''api'')]\<rparr>]\<rparr>]
      else Inl (DatabaseQueryFailed StatementFailed))"
  using group_example_C3
  by (simp add: getMetricSeries_def QueryContext_def)

section \<open>The windowed rate (C4)\<close>

text \<open>
  Claim C4, as the specification states it, at a concrete input: with points at 0 s and
  10 s and a range of 10 s, the earlier point lies in the half-open window from
  \<^verbatim>\<open>timestamp_j - rangeDuration\<close> (included), so the claim has a point emitted at 10 s;
  the code tests \<^verbatim>\<open>After(rangeStart)\<close>, which excludes the window start, and emits none.
\<close>

theorem rate_window_start_counterexample:
  "spec_rate_emits [\<lparr>Timestamp = 0, Value = Finite 10, PointLabels = []\<rparr>,
                    \<lparr>Timestamp = 10 * Second, Value = Finite 30, PointLabels = []\<rparr>] (10 * Second) 1
   \<and> ratePoint [\<lparr>Timestamp = 0, Value = Finite 10, PointLabels = []\<rparr>,
                \<lparr>Timestamp = 10 * Second, Value = Finite 30, PointLabels = []\<rparr>] (10 * Second) 1 = None
   \<and> ratePoints [\<lparr>Timestamp = 0, Value = Finite 10, PointLabels = []\<rparr>,
                 \<lparr>Timestamp = 10 * Second, Value = Finite 30, PointLabels = []\<rparr>] (10 * Second) = []"
  by code_simp

text \<open>
  Claim C4, amended: for every series whose points are in strictly ascending order of
  timestamp, every range that is a \<^verbatim>\<open>Duration\<close> above the least one (\<open>- 2 ^ 63\<close>
  nanoseconds, whose negation overflows), and every point at index \<open>j > 0\<close>, \<^verbatim>\<open>rate\<close> emits
  an output point at \<^verbatim>\<open>timestamp_j\<close> if and only if some earlier point of the series has its
  timestamp within the open window from \<^verbatim>\<open>timestamp_j - rangeDuration\<close> (excluded) to
  \<^verbatim>\<open>timestamp_j\<close> (excluded), the emitted value being
  \<^verbatim>\<open>(value_j - value_prev) / elapsedSeconds\<close> computed against the nearest such earlier
  point; when no qualifying earlier point exists the output point is omitted, and the
  first point yields none. Points at 0 s (value 10) and 10 s (value 30) give no point
  with a range of 5 s and one point of value 2 with a range of 15 s. (A series with two
  points at one timestamp is outside this statement: the code has no guard against the
  zero elapsed time it then divides by.)
\<close>

theorem rate_window_open_at_start:
  assumes "- (2 ^ 63) < rangeDuration" and "rangeDuration < 2 ^ 63"
    and "sorted_wrt (<) (map Timestamp pts)"
  shows "applyFunction now series ''rate'' rangeDuration
           = Inr (map (\<lambda>s. s\<lparr>Points := ratePoints (Points s) rangeDuration\<rparr>) series)
     \<and> ratePoints pts rangeDuration
           = List.map_filter (ratePoint pts rangeDuration) [0..<length pts]
     \<and> ratePoint pts rangeDuration 0 = None
     \<and> (\<forall>j. 0 < j \<and> j < length pts \<longrightarrow>
           (ratePoint pts rangeDuration j \<noteq> None)
             = (\<exists>k<length pts. Timestamp (pts ! j) - rangeDuration < Timestamp (pts ! k)
                                \<and> Timestamp (pts ! k) < Timestamp (pts ! j)))
     \<and> (\<forall>j k. 0 < j \<and> j < length pts \<and> k < length pts
              \<and> Timestamp (pts ! j) - rangeDuration < Timestamp (pts ! k)
              \<and> Timestamp (pts ! k) < Timestamp (pts ! j)
              \<and> (\<forall>i<length pts. Timestamp (pts ! i) < Timestamp (pts ! j)
                     \<longrightarrow> Timestamp (pts ! i) \<le> Timestamp (pts ! k))
           \<longrightarrow> ratePoint pts rangeDuration j =
                 Some \<lparr>Timestamp = Timestamp (pts ! j),
                       Value = fdiv (fsub (Value (pts ! j)) (Value (pts ! k)))
                                    (Seconds (Sub (Timestamp (pts ! j)) (Timestamp (pts ! k)))),
                       PointLabels = PointLabels (pts ! j)\<rparr>)
     \<and> ratePoints [\<lparr>Timestamp = 0, Value = Finite 10, PointLabels = []\<rparr>,
                   \<lparr>Timestamp = 10 * Second, Value = Finite 30, PointLabels = []\<rparr>] (5 * Second) = []
     \<and> ratePoints [\<lparr>Timestamp = 0, Value = Finite 10, PointLabels = []\<rparr>,
                   \<lparr>Timestamp = 10 * Second, Value = Finite 30, PointLabels = []\<rparr>] (15 * Second)
         = [\<lparr>Timestamp = 10 * Second, Value = Finite 2, PointLabels = []\<rparr>]"
proof -
  note rng = assms(1,2)
  note asc = assms(3)
  have 1: "applyFunction now series ''rate'' rangeDuration
           = Inr (map (\<lambda>s. s\<lparr>Points := ratePoints (Points s) rangeDuration\<rparr>) series)"
    by (simp add: applyFunction_def applyRate_def)
  have 2: "ratePoints pts rangeDuration
           = List.map_filter (ratePoint pts rangeDuration) [0..<length pts]"
    by (simp add: ratePoints_def foldl_appendSome)
  have 3: "ratePoint pts rangeDuration 0 = None" by (simp add: ratePoint_def)
  have 4: "(ratePoint pts rangeDuration j \<noteq> None)
             = (\<exists>k<length pts. Timestamp (pts ! j) - rangeDuration < Timestamp (pts ! k)
                                \<and> Timestamp (pts ! k) < Timestamp (pts ! j))"
    if j: "0 < j" "j < length pts" for j
  proof -
    have "(\<exists>k<j. Timestamp (pts ! j) - rangeDuration < Timestamp (pts ! k))
          = (\<exists>k<length pts. Timestamp (pts ! j) - rangeDuration < Timestamp (pts ! k)
                                \<and> Timestamp (pts ! k) < Timestamp (pts ! j))"
    proof
      assume "\<exists>k<j. Timestamp (pts ! j) - rangeDuration < Timestamp (pts ! k)"
      then obtain k where k: "k < j" "Timestamp (pts ! j) - rangeDuration < Timestamp (pts ! k)"
        by blast
      from k(1) j(2) have kl: "k < length pts" by simp
      with k(1) j(2) have "Timestamp (pts ! k) < Timestamp (pts ! j)"
        using strict_nth_less[OF asc kl j(2)] by simp
      with k(2) kl show "\<exists>k<length pts. Timestamp (pts ! j) - rangeDuration < Timestamp (pts ! k)
                                \<and> Timestamp (pts ! k) < Timestamp (pts ! j)"
        by blast
    next
      assume "\<exists>k<length pts. Timestamp (pts ! j) - rangeDuration < Timestamp (pts ! k)
                                \<and> Timestamp (pts ! k) < Timestamp (pts ! j)"
      then obtain k where k: "k < length pts"
          "Timestamp (pts ! j) - rangeDuration < Timestamp (pts ! k)"
          "Timestamp (pts ! k) < Timestamp (pts ! j)"
        by blast
      from k(3) have "k < j" using strict_nth_less[OF asc k(1) j(2)] by simp
      with k(2) show "\<exists>k<j. Timestamp (pts ! j) - rangeDuration < Timestamp (pts ! k)"
        by blast
    qed
    with ratePoint_emits_iff[OF rng j(1)] show ?thesis by simp
  qed
  have 5: "ratePoint pts rangeDuration j =
                 Some \<lparr>Timestamp = Timestamp (pts ! j),
                       Value = fdiv (fsub (Value (pts ! j)) (Value (pts ! k)))
                                    (Seconds (Sub (Timestamp (pts ! j)) (Timestamp (pts ! k)))),
                       PointLabels = PointLabels (pts ! j)\<rparr>"
    if j: "0 < j" "j < length pts" and k: "k < length pts"
      and lo: "Timestamp (pts ! j) - rangeDuration < Timestamp (pts ! k)"
      and hi: "Timestamp (pts ! k) < Timestamp (pts ! j)"
      and nearest: "\<forall>i<length pts. Timestamp (pts ! i) < Timestamp (pts ! j)
                     \<longrightarrow> Timestamp (pts ! i) \<le> Timestamp (pts ! k)"
    for j k
  proof -
    from hi have kj: "k < j" using strict_nth_less[OF asc k j(2)] by simp
    have between: "\<forall>i. k < i \<and> i < j \<longrightarrow> Timestamp (pts ! i) \<le> Timestamp (pts ! j) - rangeDuration"
    proof (intro allI impI)
      fix i assume i: "k < i \<and> i < j"
      then have il: "i < length pts" using j(2) by simp
      from i have "Timestamp (pts ! i) < Timestamp (pts ! j)"
        using strict_nth_less[OF asc il j(2)] by simp
      with nearest il have "Timestamp (pts ! i) \<le> Timestamp (pts ! k)" by blast
      moreover from i have "Timestamp (pts ! k) < Timestamp (pts ! i)"
        using strict_nth_less[OF asc k il] by simp
      ultimately show "Timestamp (pts ! i) \<le> Timestamp (pts ! j) - rangeDuration" by simp
    qed
    show ?thesis by (rule ratePoint_value[OF rng j(1) kj lo between])
  qed
  show ?thesis
    using 1 2 3 4 5 rate_example_5s rate_example_15s
    by (intro conjI allI impI) auto
qed

theorem rate_window_open_at_start_witness:
  "- (2 ^ 63) < 15 * Second \<and> 15 * Second < 2 ^ 63
   \<and> sorted_wrt (<) (map Timestamp
        [\<lparr>Timestamp = 0, Value = Finite 10, PointLabels = []\<rparr>,
         \<lparr>Timestamp = 10 * Second, Value = Finite 30, PointLabels = []\<rparr>])
   \<and> ratePoint [\<lparr>Timestamp = 0, Value = Finite 10, PointLabels = []\<rparr>,
                \<lparr>Timestamp = 10 * Second, Value = Finite 30, PointLabels = []\<rparr>] (15 * Second) 1
      = Some \<lparr>Timestamp = 10 * Second, Value = Finite 2, PointLabels = []\<rparr>"
proof -
  let ?P = "[\<lparr>Timestamp = 0, Value = Finite 10, PointLabels = []\<rparr>,
             \<lparr>Timestamp = 10 * Second, Value = Finite 30, PointLabels = []\<rparr>]"
  have a: "- (2 ^ 63) < 15 * Second" and b: "15 * Second < 2 ^ 63"
    by (simp_all add: Second_def)
  have c: "sorted_wrt (<) (map Timestamp ?P)" by (simp add: Second_def)
  from rate_window_open_at_start[OF a b c]
  have "\<forall>j k. 0 < j \<and> j < length ?P \<and> k < length ?P
              \<and> Timestamp (?P ! j) - 15 * Second < Timestamp (?P ! k)
              \<and> Timestamp (?P ! k) < Timestamp (?P ! j)
              \<and> (\<forall>i<length ?P. Timestamp (?P ! i) < Timestamp (?P ! j)
                     \<longrightarrow> Timestamp (?P ! i) \<le> Timestamp (?P ! k))
           \<longrightarrow> ratePoint ?P (15 * Second) j =
                 Some \<lparr>Timestamp = Timestamp (?P ! j),
                       Value = fdiv (fsub (Value (?P ! j)) (Value (?P ! k)))
                                    (Seconds (Sub (Timestamp (?P ! j)) (Timestamp (?P ! k)))),
                       PointLabels = PointLabels (?P ! j)\<rparr>"
    by blast
  then have "0 < (1::nat) \<and> 1 < length ?P \<and> 0 < length ?P
              \<and> Timestamp (?P ! 1) - 15 * Second < Timestamp (?P ! 0)
              \<and> Timestamp (?P ! 0) < Timestamp (?P ! 1)
              \<and> (\<forall>i<length ?P. Timestamp (?P ! i) < Timestamp (?P ! 1)
                     \<longrightarrow> Timestamp (?P ! i) \<le> Timestamp (?P ! 0))
           \<longrightarrow> ratePoint ?P (15 * Second) 1 =
                 Some \<lparr>Timestamp = Timestamp (?P ! 1),
                       Value = fdiv (fsub (Value (?P ! 1)) (Value (?P ! 0)))
                                    (Seconds (Sub (Timestamp (?P ! 1)) (Timestamp (?P ! 0)))),
                       PointLabels = PointLabels (?P ! 1)\<rparr>"
    by blast
  moreover have "\<forall>i<length ?P. Timestamp (?P ! i) < Timestamp (?P ! 1)
                     \<longrightarrow> Timestamp (?P ! i) \<le> Timestamp (?P ! 0)"
    by (auto simp: less_Suc_eq Second_def)
  ultimately have "ratePoint ?P (15 * Second) 1 =
                 Some \<lparr>Timestamp = 10 * Second, Value = Finite 2, PointLabels = []\<rparr>"
    by (auto simp add: Second_def Seconds_def Sub_def fsub_def)
  with a b c show ?thesis by blast
qed

section \<open>The windowed increase (C5)\<close>

text \<open>
  Claim C5, as the specification states it, at a concrete input: with points at 0 s
  (value 1), 10 s (value 5) and 20 s (value 9) and a range of 10 s, the earliest point
  at or before \<^verbatim>\<open>20 s - 10 s\<close> is the one at 0 s, so the claim has the value
  \<^verbatim>\<open>9 - 1 = 8\<close> at 20 s; the code scans backward from \<open>j\<close> and stops at the first
  point at or before the window start, the one at 10 s, and gives \<^verbatim>\<open>9 - 5 = 4\<close>.
\<close>

theorem increase_earliest_counterexample:
  "spec_increase_value [\<lparr>Timestamp = 0, Value = Finite 1, PointLabels = []\<rparr>,
                        \<lparr>Timestamp = 10 * Second, Value = Finite 5, PointLabels = []\<rparr>,
                        \<lparr>Timestamp = 20 * Second, Value = Finite 9, PointLabels = []\<rparr>] (10 * Second) 2
      = Some (Finite 8)
   \<and> increasePoint [\<lparr>Timestamp = 0, Value = Finite 1, PointLabels = []\<rparr>,
                    \<lparr>Timestamp = 10 * Second, Value = Finite 5, PointLabels = []\<rparr>,
                    \<lparr>Timestamp = 20 * Second, Value = Finite 9, PointLabels = []\<rparr>] (10 * Second) 2
      = Some \<lparr>Timestamp = 20 * Second, Value = Finite 4, PointLabels = []\<rparr>"
  by code_simp

text \<open>
  Claim C5, amended: for every series and every range that is a \<^verbatim>\<open>Duration\<close> above the
  least one (\<open>- 2 ^ 63\<close> nanoseconds, whose negation overflows), \<^verbatim>\<open>increase\<close> emits the points \<^const>\<open>increasePoint\<close> gives
  for the indices of the series in order; at an index \<open>j\<close> one exactly when some point of
  index at most \<open>j\<close> has its timestamp at or before \<^verbatim>\<open>timestamp_j - rangeDuration\<close>; the
  point emitted has the timestamp and labels of point \<open>j\<close> and the value
  \<^verbatim>\<open>value_j - value_k\<close> for the point \<open>k\<close> of greatest index among those: the latest
  such point, not the earliest.
\<close>

theorem increase_from_latest_point_before_window:
  assumes "- (2 ^ 63) < rangeDuration" and "rangeDuration < 2 ^ 63"
  shows "applyFunction now series ''increase'' rangeDuration
           = Inr (map (\<lambda>s. s\<lparr>Points := increasePoints (Points s) rangeDuration\<rparr>) series)
     \<and> increasePoints pts rangeDuration
           = List.map_filter (increasePoint pts rangeDuration) [0..<length pts]
     \<and> (\<forall>j. j < length pts \<longrightarrow>
           (increasePoint pts rangeDuration j \<noteq> None)
             = (\<exists>k\<le>j. Timestamp (pts ! k) \<le> Timestamp (pts ! j) - rangeDuration))
     \<and> (\<forall>j k. j < length pts \<and> k \<le> j
              \<and> Timestamp (pts ! k) \<le> Timestamp (pts ! j) - rangeDuration
              \<and> (\<forall>i. k < i \<and> i \<le> j \<longrightarrow> Timestamp (pts ! j) - rangeDuration < Timestamp (pts ! i))
           \<longrightarrow> increasePoint pts rangeDuration j =
                 Some \<lparr>Timestamp = Timestamp (pts ! j),
                       Value = fsub (Value (pts ! j)) (Value (pts ! k)),
                       PointLabels = PointLabels (pts ! j)\<rparr>)"
proof -
  have 1: "applyFunction now series ''increase'' rangeDuration
           = Inr (map (\<lambda>s. s\<lparr>Points := increasePoints (Points s) rangeDuration\<rparr>) series)"
    by (simp add: applyFunction_def applyIncrease_def)
  have 2: "increasePoints pts rangeDuration
           = List.map_filter (increasePoint pts rangeDuration) [0..<length pts]"
    by (simp add: increasePoints_def foldl_appendSome)
  show ?thesis
    using 1 2 increasePoint_emits_iff[OF assms] increasePoint_value[OF assms]
    by (intro conjI allI impI) auto
qed

theorem increase_from_latest_point_before_window_witness:
  "- (2 ^ 63) < 10 * Second \<and> 10 * Second < 2 ^ 63
   \<and> increasePoint [\<lparr>Timestamp = 0, Value = Finite 1, PointLabels = []\<rparr>,
                    \<lparr>Timestamp = 10 * Second, Value = Finite 5, PointLabels = []\<rparr>,
                    \<lparr>Timestamp = 20 * Second, Value = Finite 9, PointLabels = []\<rparr>] (10 * Second) 2
      = Some \<lparr>Timestamp = 20 * Second, Value = Finite 4, PointLabels = []\<rparr>"
proof -
  let ?P = "[\<lparr>Timestamp = 0, Value = Finite 1, PointLabels = []\<rparr>,
             \<lparr>Timestamp = 10 * Second, Value = Finite 5, PointLabels = []\<rparr>,
             \<lparr>Timestamp = 20 * Second, Value = Finite 9, PointLabels = []\<rparr>]"
  have a: "- (2 ^ 63) < 10 * Second" and b: "10 * Second < 2 ^ 63"
    by (simp_all add: Second_def)
  from increase_from_latest_point_before_window[OF a b, of _ _ ?P]
  have "\<forall>j k. j < length ?P \<and> k \<le> j
              \<and> Timestamp (?P ! k) \<le> Timestamp (?P ! j) - 10 * Second
              \<and> (\<forall>i. k < i \<and> i \<le> j \<longrightarrow> Timestamp (?P ! j) - 10 * Second < Timestamp (?P ! i))
           \<longrightarrow> increasePoint ?P (10 * Second) j =
                 Some \<lparr>Timestamp = Timestamp (?P ! j),
                       Value = fsub (Value (?P ! j)) (Value (?P ! k)),
                       PointLabels = PointLabels (?P ! j)\<rparr>"
    by blast
  then have "2 < length ?P \<and> (1::nat) \<le> 2
              \<and> Timestamp (?P ! 1) \<le> Timestamp (?P ! 2) - 10 * Second
              \<and> (\<forall>i. 1 < i \<and> i \<le> 2 \<longrightarrow> Timestamp (?P ! 2) - 10 * Second < Timestamp (?P ! i))
           \<longrightarrow> increasePoint ?P (10 * Second) 2 =
                 Some \<lparr>Timestamp = Timestamp (?P ! 2),
                       Value = fsub (Value (?P ! 2)) (Value (?P ! 1)),
                       PointLabels = PointLabels (?P ! 2)\<rparr>"
    by blast
  moreover have "\<forall>i::nat. 1 < i \<and> i \<le> 2 \<longrightarrow> i = 2" by auto
  ultimately have "increasePoint ?P (10 * Second) 2 =
                 Some \<lparr>Timestamp = 20 * Second, Value = Finite 4, PointLabels = []\<rparr>"
    by (auto simp add: Second_def fsub_def)
  with a b show ?thesis by blast
qed

section \<open>The sum aggregation (C6)\<close>

text \<open>
  Claim C6: for every non-empty list of series, \<^verbatim>\<open>sum\<close> gives exactly one series, with an
  empty label set; its timestamps are the distinct timestamps of all the input points in
  ascending order; its value at each is the sum, from zero and in the order of the
  series, of the values of exactly those series that have a point at that timestamp, a
  series counting with its first point there; series without such a point add nothing.
  Two series of one point each at the same timestamp, with the values 3 and 4, give one
  point of value 7 at that timestamp.
\<close>

theorem sum_over_union_of_timestamps:
  assumes "series \<noteq> []"
  shows "(\<exists>out. applySum series = Inr [out] \<and> SeriesLabels out = []
           \<and> sorted_wrt (<) (map Timestamp (Points out))
           \<and> set (map Timestamp (Points out)) = (\<Union>s\<in>set series. Timestamp ` set (Points s))
           \<and> (\<forall>p\<in>set (Points out).
                 Value p = foldl fadd (Finite 0)
                   (map (\<lambda>s. Value (the (find (\<lambda>q. Timestamp q = Timestamp p) (Points s))))
                        (filter (\<lambda>s. Timestamp p \<in> Timestamp ` set (Points s)) series))))
     \<and> applySum [\<lparr>SeriesMetricName = ''m'', SeriesLabels = [(''service'', ''a'')],
              Points = [\<lparr>Timestamp = 7 * Second, Value = Finite 3, PointLabels = [(''service'', ''a'')]\<rparr>]\<rparr>,
             \<lparr>SeriesMetricName = ''m'', SeriesLabels = [(''service'', ''b'')],
              Points = [\<lparr>Timestamp = 7 * Second, Value = Finite 4, PointLabels = [(''service'', ''b'')]\<rparr>]\<rparr>]
         = Inr [\<lparr>SeriesMetricName = ''m'', SeriesLabels = [],
           Points = [\<lparr>Timestamp = 7 * Second, Value = Finite 7, PointLabels = []\<rparr>]\<rparr>]"
proof -
  let ?pts = "map (\<lambda>ts. \<lparr>Timestamp = ts, Value = sumAt series ts, PointLabels = []\<rparr>)
                  (allTimestamps series)"
  let ?out = "\<lparr>SeriesMetricName = SeriesMetricName (hd series), SeriesLabels = [], Points = ?pts\<rparr>"
  have ts: "map Timestamp ?pts = allTimestamps series"
    by (simp add: comp_def)
  have "applySum series = Inr [?out]" using assms by (simp add: applySum_def)
  moreover have "SeriesLabels ?out = []" by simp
  moreover have "sorted_wrt (<) (map Timestamp (Points ?out))"
    using ts allTimestamps_strict by simp
  moreover have "set (map Timestamp (Points ?out)) = (\<Union>s\<in>set series. Timestamp ` set (Points s))"
    using ts set_allTimestamps by simp
  moreover have "\<forall>p\<in>set (Points ?out).
                 Value p = foldl fadd (Finite 0)
                   (map (\<lambda>s. Value (the (find (\<lambda>q. Timestamp q = Timestamp p) (Points s))))
                        (filter (\<lambda>s. Timestamp p \<in> Timestamp ` set (Points s)) series))"
    by (auto simp: sumAt_def sumAt_fold)
  ultimately have "\<exists>out. applySum series = Inr [out] \<and> SeriesLabels out = []
           \<and> sorted_wrt (<) (map Timestamp (Points out))
           \<and> set (map Timestamp (Points out)) = (\<Union>s\<in>set series. Timestamp ` set (Points s))
           \<and> (\<forall>p\<in>set (Points out).
                 Value p = foldl fadd (Finite 0)
                   (map (\<lambda>s. Value (the (find (\<lambda>q. Timestamp q = Timestamp p) (Points s))))
                        (filter (\<lambda>s. Timestamp p \<in> Timestamp ` set (Points s)) series)))"
    by blast
  with sum_example show ?thesis by blast
qed

theorem sum_over_union_of_timestamps_witness:
  "[\<lparr>SeriesMetricName = ''m'', SeriesLabels = [(''service'', ''a'')],
      Points = [\<lparr>Timestamp = 7 * Second, Value = Finite 3, PointLabels = [(''service'', ''a'')]\<rparr>]\<rparr>,
     \<lparr>SeriesMetricName = ''m'', SeriesLabels = [(''service'', ''b'')],
      Points = [\<lparr>Timestamp = 7 * Second, Value = Finite 4, PointLabels = [(''service'', ''b'')]\<rparr>]\<rparr>] \<noteq> []
   \<and> applySum [\<lparr>SeriesMetricName = ''m'', SeriesLabels = [(''service'', ''a'')],
              Points = [\<lparr>Timestamp = 7 * Second, Value = Finite 3, PointLabels = [(''service'', ''a'')]\<rparr>]\<rparr>,
             \<lparr>SeriesMetricName = ''m'', SeriesLabels = [(''service'', ''b'')],
              Points = [\<lparr>Timestamp = 7 * Second, Value = Finite 4, PointLabels = [(''service'', ''b'')]\<rparr>]\<rparr>]
         = Inr [\<lparr>SeriesMetricName = ''m'', SeriesLabels = [],
           Points = [\<lparr>Timestamp = 7 * Second, Value = Finite 7, PointLabels = []\<rparr>]\<rparr>]"
proof -
  let ?S = "[\<lparr>SeriesMetricName = ''m'', SeriesLabels = [(''service'', ''a'')],
      Points = [\<lparr>Timestamp = 7 * Second, Value = Finite 3, PointLabels = [(''service'', ''a'')]\<rparr>]\<rparr>,
     \<lparr>SeriesMetricName = ''m'', SeriesLabels = [(''service'', ''b'')],
      Points = [\<lparr>Timestamp = 7 * Second, Value = Finite 4, PointLabels = [(''service'', ''b'')]\<rparr>]\<rparr>]"
  have h: "?S \<noteq> []" by simp
  from sum_over_union_of_timestamps[OF h] h show ?thesis by blast
qed

section \<open>The resource's service name (C7)\<close>

text \<open>
  Claim C7: for both adapters the service name of a resource is the value of its
  \<^verbatim>\<open>service.name\<close> attribute, and \<^verbatim>\<open>unknown\<close> when that attribute is absent or empty.

  The code at a concrete input, a resource whose \<^verbatim>\<open>service.name\<close> attribute is the empty
  string: the RPC adapter skips the empty value and answers \<^verbatim>\<open>unknown\<close>; the HTTP adapter
  returns the value of the first attribute with the key, the empty string.
\<close>

theorem http_service_name_empty:
  "extractServiceNameFromResource [(''service.name'', [])] = []
   \<and> extractServiceName (Some [(''service.name'', Some (StringValue []))]) = ''unknown''"
  by code_simp

section \<open>The parser's examples (C8)\<close>

text \<open>
  Claim C8: the parser maps a bare metric name, a metric with one label, a \<^verbatim>\<open>rate\<close> over
  five minutes, and \<^verbatim>\<open>sum(http_requests_total) by (service)\<close> to the queries the
  specification lists, the last an aggregation \<^verbatim>\<open>sum\<close> grouped by \<^verbatim>\<open>service\<close>.

  The code on the four texts: the first three parse as claimed. On the fourth,
  \<^const>\<open>ParseAggregation\<close> takes the last closing parenthesis of the whole text, that of
  the \<^verbatim>\<open>by\<close> clause, as the end of the argument, hands
  \<^verbatim>\<open>http_requests_total) by (service\<close> to \<^const>\<open>Parse\<close>, and fails; \<^const>\<open>Parse\<close> itself
  reads the text as the function \<^verbatim>\<open>sum\<close> of a metric of that name, with no aggregation.
\<close>

theorem parser_examples:
  \<open>Parse ''http_requests_total'' =
      Inr \<lparr>MetricName = ''http_requests_total'', Labels = [], Function = [], RangeDur = 0,
           Offset = 0, Aggregation = None\<rparr>
   \<and> Parse ''http_requests_total{service="api"}'' =
      Inr \<lparr>MetricName = ''http_requests_total'', Labels = [(''service'', ''api'')],
           Function = [], RangeDur = 0, Offset = 0, Aggregation = None\<rparr>
   \<and> Parse ''rate(http_requests_total[5m])'' =
      Inr \<lparr>MetricName = ''http_requests_total'', Labels = [], Function = ''rate'',
           RangeDur = 300 * Second, Offset = 0, Aggregation = None\<rparr>
   \<and> ParseAggregation ''sum(http_requests_total) by (service)'' = Inl MissingClosingParenthesis
   \<and> Parse ''sum(http_requests_total) by (service)'' =
      Inr \<lparr>MetricName = ''http_requests_total) by (service'', Labels = [], Function = ''sum'',
           RangeDur = 0, Offset = 0, Aggregation = None\<rparr>\<close>
  by code_simp

section \<open>Unsupported functions and aggregations (C9)\<close>

text \<open>
  Claim C9: for every function name outside \<^verbatim>\<open>rate increase sum avg count min max\<close> and
  every aggregation operation outside \<^verbatim>\<open>sum avg count min max\<close>, evaluation returns an
  unsupported-function or unsupported-aggregation error and no series.
  \<^const>\<open>applyFunction\<close> and \<^const>\<open>applyAggregation\<close> do so for every such name, the empty
  one included. \<^const>\<open>Evaluate\<close> calls \<^const>\<open>applyFunction\<close> when the query has a function,
  which in the \<^verbatim>\<open>Query\<close> struct is a name that is not empty, and then returns an error
  and no result, whatever the fetch did: the unsupported function when the fetch
  succeeds. With an unsupported aggregation it returns an error and no result too: the
  unsupported aggregation when the fetch succeeds and the query has no function.
\<close>

theorem unsupported_names_rejected:
  "(function \<notin> set [''rate'', ''increase'', ''sum'', ''avg'', ''count'', ''min'', ''max'']
      \<longrightarrow> applyFunction now series function rangeDuration = Inl (UnsupportedFunction function))
 \<and> (Operation agg \<notin> set [''sum'', ''avg'', ''count'', ''min'', ''max'']
      \<longrightarrow> applyAggregation now series agg = Inl (UnsupportedAggregation (Operation agg)))
 \<and> (Function query \<noteq> [] \<and>
     Function query \<notin> set [''rate'', ''increase'', ''sum'', ''avg'', ''count'', ''min'', ''max'']
      \<longrightarrow> (\<exists>err. Evaluate accepts db now ctx query startTime endTime = Inl err))
 \<and> (Function query \<noteq> [] \<and>
     Function query \<notin> set [''rate'', ''increase'', ''sum'', ''avg'', ''count'', ''min'', ''max'']
     \<and> getMetricSeries accepts db ctx query startTime endTime = Inr fetched
      \<longrightarrow> Evaluate accepts db now ctx query startTime endTime =
            Inl (FailedToApplyFunction (Function query) (UnsupportedFunction (Function query))))
 \<and> (Aggregation query = Some agg \<and> Operation agg \<notin> set [''sum'', ''avg'', ''count'', ''min'', ''max'']
      \<longrightarrow> (\<exists>err. Evaluate accepts db now ctx query startTime endTime = Inl err))
 \<and> (Aggregation query = Some agg \<and> Operation agg \<notin> set [''sum'', ''avg'', ''count'', ''min'', ''max'']
     \<and> Function query = []
     \<and> getMetricSeries accepts db ctx query startTime endTime = Inr fetched
      \<longrightarrow> Evaluate accepts db now ctx query startTime endTime =
            Inl (FailedToApplyAggregation (UnsupportedAggregation (Operation agg))))"
proof -
  have f: "applyFunction now s function r = Inl (UnsupportedFunction function)"
    if "function \<notin> set [''rate'', ''increase'', ''sum'', ''avg'', ''count'', ''min'', ''max'']"
    for s r "function"
    using that by (simp add: applyFunction_def)
  have a: "applyAggregation now s agg = Inl (UnsupportedAggregation (Operation agg))"
    if "Operation agg \<notin> set [''sum'', ''avg'', ''count'', ''min'', ''max'']" for s
    using that by (simp add: applyAggregation_def)
  have e0: "\<exists>err. Evaluate accepts db now ctx query startTime endTime = Inl err"
    if "Function query \<noteq> []"
       "Function query \<notin> set [''rate'', ''increase'', ''sum'', ''avg'', ''count'', ''min'', ''max'']"
    using that(1) f[OF that(2)] by (simp add: Evaluate_def split: sum.splits)
  have e1: "Evaluate accepts db now ctx query startTime endTime =
            Inl (FailedToApplyFunction (Function query) (UnsupportedFunction (Function query)))"
    if "Function query \<noteq> []"
       "Function query \<notin> set [''rate'', ''increase'', ''sum'', ''avg'', ''count'', ''min'', ''max'']"
       "getMetricSeries accepts db ctx query startTime endTime = Inr fetched"
    using that(1,3) f[OF that(2)] by (simp add: Evaluate_def)
  have e2: "\<exists>err. Evaluate accepts db now ctx query startTime endTime = Inl err"
    if "Aggregation query = Some agg"
       "Operation agg \<notin> set [''sum'', ''avg'', ''count'', ''min'', ''max'']"
    using that(1) a[OF that(2)] by (simp add: Evaluate_def split: sum.splits)
  have e3: "Evaluate accepts db now ctx query startTime endTime =
            Inl (FailedToApplyAggregation (UnsupportedAggregation (Operation agg)))"
    if "Aggregation query = Some agg"
       "Operation agg \<notin> set [''sum'', ''avg'', ''count'', ''min'', ''max'']"
       "Function query = []"
       "getMetricSeries accepts db ctx query startTime endTime = Inr fetched"
    using that(1,3,4) a[OF that(2)] by (simp add: Evaluate_def)
  show ?thesis using f a e0 e1 e2 e3 by blast
qed

theorem unsupported_names_rejected_witness:
  "applyFunction 0 [] ''bogus'' (60 * Second) = Inl (UnsupportedFunction ''bogus'')
   \<and> applyAggregation 0 [] \<lparr>Operation = ''median'', By = [], Without = []\<rparr>
       = Inl (UnsupportedAggregation ''median'')
   \<and> getMetricSeries (\<lambda>db text args. True) \<lparr>metrics = [], traces = [], closed = False\<rparr> Active
       \<lparr>MetricName = ''x'', Labels = [], Function = ''bogus'', RangeDur = 60 * Second,
        Offset = 0, Aggregation = None\<rparr> 0 0 = Inr []
   \<and> Evaluate (\<lambda>db text args. True) \<lparr>metrics = [], traces = [], closed = False\<rparr> 0 Active
       \<lparr>MetricName = ''x'', Labels = [], Function = ''bogus'', RangeDur = 60 * Second,
        Offset = 0, Aggregation = None\<rparr> 0 0
       = Inl (FailedToApplyFunction ''bogus'' (UnsupportedFunction ''bogus''))
   \<and> getMetricSeries (\<lambda>db text args. True) \<lparr>metrics = [], traces = [], closed = False\<rparr> Active
       \<lparr>MetricName = ''x'', Labels = [], Function = [], RangeDur = 0,
        Offset = 0, Aggregation = Some \<lparr>Operation = ''median'', By = [], Without = []\<rparr>\<rparr> 0 0
       = Inr []
   \<and> Evaluate (\<lambda>db text args. True) \<lparr>metrics = [], traces = [], closed = False\<rparr> 0 Active
       \<lparr>MetricName = ''x'', Labels = [], Function = [], RangeDur = 0,
        Offset = 0, Aggregation = Some \<lparr>Operation = ''median'', By = [], Without = []\<rparr>\<rparr> 0 0
       = Inl (FailedToApplyAggregation (UnsupportedAggregation ''median''))"
proof -
  have 1: "''bogus'' \<notin> set [''rate'', ''increase'', ''sum'', ''avg'', ''count'', ''min'', ''max'']"
    by simp
  have 2: "''median'' \<notin> set [''sum'', ''avg'', ''count'', ''min'', ''max'']"
    by simp
  let ?acc = "\<lambda>(db::DB) (text::string) (args::sql_arg list). True"
  let ?agg = "\<lparr>Operation = ''median'', By = [], Without = []\<rparr>"
  let ?db = "\<lparr>metrics = [], traces = [], closed = False\<rparr>"
  let ?q1 = "\<lparr>MetricName = ''x'', Labels = [], Function = ''bogus'', RangeDur = 60 * Second,
        Offset = 0, Aggregation = None\<rparr>"
  let ?q2 = "\<lparr>MetricName = ''x'', Labels = [], Function = [], RangeDur = 0,
        Offset = 0, Aggregation = Some ?agg\<rparr>"
  have g1: "getMetricSeries ?acc ?db Active ?q1 0 0 = Inr []"
    by (simp add: getMetricSeries_def QueryContext_def groupRows_def selectMetricRows_def)
  have g2: "getMetricSeries ?acc ?db Active ?q2 0 0 = Inr []"
    by (simp add: getMetricSeries_def QueryContext_def groupRows_def selectMetricRows_def)
  from unsupported_names_rejected
         [of "''bogus''" 0 "[]" "60 * Second" ?agg ?q1 ?acc ?db Active 0 0 "[]"] 1 2 g1
  have a: "applyFunction 0 [] ''bogus'' (60 * Second) = Inl (UnsupportedFunction ''bogus'')"
    and b: "applyAggregation 0 [] ?agg = Inl (UnsupportedAggregation ''median'')"
    and c: "Evaluate ?acc ?db 0 Active ?q1 0 0
              = Inl (FailedToApplyFunction ''bogus'' (UnsupportedFunction ''bogus''))"
    by simp_all
  from unsupported_names_rejected
         [of "''bogus''" 0 "[]" "60 * Second" ?agg ?q2 ?acc ?db Active 0 0 "[]"] 2 g2
  have d: "Evaluate ?acc ?db 0 Active ?q2 0 0
             = Inl (FailedToApplyAggregation (UnsupportedAggregation ''median''))"
    by simp
  from a b c d g1 g2 show ?thesis by blast
qed

section \<open>The result type (C10)\<close>

text \<open>
  Claim C10: for every query, window, context and engine, a result that \<^const>\<open>Evaluate\<close>
  returns has the type \<^verbatim>\<open>vector\<close>, also for the aggregations \<^verbatim>\<open>count\<close>, \<^verbatim>\<open>min\<close> and \<^verbatim>\<open>max\<close>.
\<close>

theorem evaluate_result_is_vector:
  "Evaluate accepts db now ctx query startTime endTime = Inr r \<Longrightarrow> Type r = ''vector''"
  by (auto simp: Evaluate_def split: sum.splits)

theorem evaluate_result_is_vector_witness:
  "Evaluate (\<lambda>db text args. True)
     \<lparr>metrics = [\<lparr>col_timestamp = 1, col_metric_name = ''m'', col_value = Finite 1,
                   col_labels = [], col_service_name = ''api''\<rparr>],
      traces = [], closed = False\<rparr>
     (time_Unix 5 0) Active
     \<lparr>MetricName = ''m'', Labels = [], Function = [], RangeDur = 0, Offset = 0,
      Aggregation = Some \<lparr>Operation = ''count'', By = [], Without = []\<rparr>\<rparr>
     (time_Unix 0 0) (time_Unix 10 0)
   = Inr \<lparr>Series = [\<lparr>SeriesMetricName = ''count'', SeriesLabels = [],
                     Points = [\<lparr>Timestamp = 5000000000, Value = Finite 1, PointLabels = []\<rparr>]\<rparr>],
          Type = ''vector''\<rparr>
   \<and> Type \<lparr>Series = [\<lparr>SeriesMetricName = ''count'', SeriesLabels = [],
                     Points = [\<lparr>Timestamp = 5000000000, Value = Finite 1, PointLabels = []\<rparr>]\<rparr>],
          Type = ''vector''\<rparr> = ''vector''"
  using evaluate_result_is_vector[OF evaluate_count_example] evaluate_count_example by blast

end
